theory Spec2Isabelle
  imports Complex_Main "HOL-Library.Multiset"
begin

chapter \<open>The data loader: videoAR/data/dataset_image_video.py\<close>

section \<open>Python values, exceptions and annotation entries\<close>

text \<open>
  The annotation file of \<^verbatim>\<open>videoAR/data/dataset_image_video.py\<close> is parsed into a
  list of dictionaries. A dictionary is a map from keys to values; the values the code
  reads are strings and integers.
\<close>

datatype pyval = PStr string | PInt int

type_synonym entry = "string \<rightharpoonup> pyval"

text \<open>Every \<^verbatim>\<open>raise\<close> of the source, and every exception of the Python run time that
  the modelled code can meet, is a value.\<close>

datatype error =
    ValueError string
  | KeyError
  | IndexError
  | TypeError
  | ZeroDivisionError
  | UnboundLocalError
  | AssertionError
  | AttributeError
  | RuntimeError
  | ExternalError string

text \<open>\<^verbatim>\<open>data.get('type', 'image')\<close>\<close>

definition get_type :: "entry \<Rightarrow> pyval" where
  "get_type data = (case data ''type'' of Some v \<Rightarrow> v | None \<Rightarrow> PStr ''image'')"

text \<open>\<^verbatim>\<open>xs[i]\<close> on a Python list: a negative index counts from the end, an index out
  of range raises.\<close>

definition py_index :: "'a list \<Rightarrow> int \<Rightarrow> error + 'a" where
  "py_index xs i =
     (if 0 \<le> i \<and> i < int (length xs) then Inr (xs ! nat i)
      else if i < 0 \<and> - int (length xs) \<le> i then Inr (xs ! nat (int (length xs) + i))
      else Inl IndexError)"

section \<open>ImageVideoDataset.__init__: the entry list\<close>

text \<open>
  \<^verbatim>\<open>
  self.dataset = []
  for data in dataset:
      if data.get('type', 'image') != 'video':
          self.dataset.append(data)
  if video_repeat > 0:
      for _ in range(video_repeat):
          for data in dataset:
              if data.get('type', 'image') == 'video':
                  self.dataset.append(data)
  \<close>
\<close>

definition non_video_entries :: "entry list \<Rightarrow> entry list" where
  "non_video_entries dataset = filter (\<lambda>data. get_type data \<noteq> PStr ''video'') dataset"

definition video_entries :: "entry list \<Rightarrow> entry list" where
  "video_entries dataset = filter (\<lambda>data. get_type data = PStr ''video'') dataset"

text \<open>The outer loop \<^verbatim>\<open>for _ in range(n)\<close>, one pass over the videos per round.\<close>

fun repeat_videos :: "nat \<Rightarrow> entry list \<Rightarrow> entry list" where
  "repeat_videos 0 dataset = []"
| "repeat_videos (Suc n) dataset = video_entries dataset @ repeat_videos n dataset"

definition init_dataset :: "entry list \<Rightarrow> int \<Rightarrow> entry list" where
  "init_dataset dataset video_repeat =
     non_video_entries dataset @
     (if video_repeat > 0 then repeat_videos (nat video_repeat) dataset else [])"

section \<open>ImageVideoSampler\<close>

text \<open>
  The sampler keeps two buckets of indices, \<^verbatim>\<open>self.bucket = {'image': [], 'video': []}\<close>.
  The dictionary has these two keys for its whole life, so it is a pair of fields; a
  content type other than the two is the \<^verbatim>\<open>KeyError\<close> of \<^verbatim>\<open>self.bucket[content_type]\<close>.
  \<open>s_dataset\<close> is \<^verbatim>\<open>self.dataset.dataset\<close>, the entry list of the dataset.
\<close>

record sampler =
  s_dataset :: "entry list"
  batch_size :: int
  image_batch_size :: int
  drop_last :: bool
  bucket_image :: "int list"
  bucket_video :: "int list"

text \<open>\<^verbatim>\<open>__init__\<close>: only \<^verbatim>\<open>batch_size\<close> is validated (the \<^verbatim>\<open>isinstance\<close> tests are
  the types of the arguments here).\<close>

definition sampler_init :: "entry list \<Rightarrow> int \<Rightarrow> int \<Rightarrow> bool \<Rightarrow> error + sampler" where
  "sampler_init dataset bs ibs dl =
     (if bs \<le> 0 then Inl (ValueError ''batch_size should be a positive integer value'')
      else Inr \<lparr>s_dataset = dataset, batch_size = bs, image_batch_size = ibs,
                drop_last = dl, bucket_image = [], bucket_video = []\<rparr>)"

text \<open>\<^verbatim>\<open>self.bucket[content_type].append(idx)\<close>\<close>

definition bucket_append :: "sampler \<Rightarrow> pyval \<Rightarrow> int \<Rightarrow> error + sampler" where
  "bucket_append s content_type idx =
     (if content_type = PStr ''image'' then Inr (s\<lparr>bucket_image := bucket_image s @ [idx]\<rparr>)
      else if content_type = PStr ''video'' then Inr (s\<lparr>bucket_video := bucket_video s @ [idx]\<rparr>)
      else Inl KeyError)"

text \<open>
  \<^verbatim>\<open>__iter__\<close> is a generator over the indices of the base sampler. The model runs it
  over one pass of the base sampler (a list of indices) and returns the batches in the
  order they are yielded, the sampler with its buckets as the loop leaves them, and the
  exception that ended the loop, if one did.
  \<^verbatim>\<open>
  for idx in self.sampler:
      content_type = self.dataset.dataset[idx].get('type', 'image')
      self.bucket[content_type].append(idx)
      if len(self.bucket['video']) == self.batch_size:
          bucket = self.bucket['video']
          yield bucket[:]
          del bucket[:]
      elif len(self.bucket['image']) == self.image_batch_size:
          bucket = self.bucket['image']
          yield bucket[:]
          del bucket[:]
  \<close>
\<close>

fun sampler_iter :: "sampler \<Rightarrow> int list \<Rightarrow> int list list \<times> sampler \<times> error option" where
  "sampler_iter s [] = ([], s, None)"
| "sampler_iter s (idx # rest) =
     (case py_index (s_dataset s) idx of
        Inl e \<Rightarrow> ([], s, Some e)
      | Inr data \<Rightarrow>
          (case bucket_append s (get_type data) idx of
             Inl e \<Rightarrow> ([], s, Some e)
           | Inr s1 \<Rightarrow>
               if int (length (bucket_video s1)) = batch_size s1 then
                 (case sampler_iter (s1\<lparr>bucket_video := []\<rparr>) rest of
                    (batches, s2, err) \<Rightarrow> (bucket_video s1 # batches, s2, err))
               else if int (length (bucket_image s1)) = image_batch_size s1 then
                 (case sampler_iter (s1\<lparr>bucket_image := []\<rparr>) rest of
                    (batches, s2, err) \<Rightarrow> (bucket_image s1 # batches, s2, err))
               else sampler_iter s1 rest))"

text \<open>The content type of the entry an index refers to.\<close>

definition has_type :: "entry list \<Rightarrow> string \<Rightarrow> int \<Rightarrow> bool" where
  "has_type dataset ty idx =
     (case py_index dataset idx of Inl e \<Rightarrow> False | Inr data \<Rightarrow> get_type data = PStr ty)"

text \<open>Each bucket holds indices of its own content type only.\<close>

definition buckets_typed :: "sampler \<Rightarrow> bool" where
  "buckets_typed s \<longleftrightarrow>
     list_all (has_type (s_dataset s) ''video'') (bucket_video s) \<and>
     list_all (has_type (s_dataset s) ''image'') (bucket_image s)"

text \<open>A batch is bucketed: \<^verbatim>\<open>batch_size\<close> indices of videos, or
  \<^verbatim>\<open>image_batch_size\<close> indices of images.\<close>

definition bucketed :: "sampler \<Rightarrow> int list \<Rightarrow> bool" where
  "bucketed s batch \<longleftrightarrow>
     (int (length batch) = batch_size s \<and> list_all (has_type (s_dataset s) ''video'') batch) \<or>
     (int (length batch) = image_batch_size s \<and> list_all (has_type (s_dataset s) ''image'') batch)"

section \<open>Randomness\<close>

text \<open>
  The module \<^verbatim>\<open>random\<close> is a stream of raw draws that the calls consume in order.
  \<^verbatim>\<open>random.randint(a, b)\<close> returns an integer of \<open>[a, b]\<close> and raises on an empty
  range; \<^verbatim>\<open>random.random()\<close> returns a number of \<open>[0, 1)\<close> with 53 random bits.
  Which number is drawn is the stream's matter: the model fixes only the range.
\<close>

record rng =
  draws :: "nat \<Rightarrow> nat"
  pos :: nat

definition next_rng :: "rng \<Rightarrow> rng" where
  "next_rng g = g\<lparr>pos := Suc (pos g)\<rparr>"

definition randint :: "rng \<Rightarrow> int \<Rightarrow> int \<Rightarrow> error + int \<times> rng" where
  "randint g a b =
     (if b < a then Inl (ValueError ''empty range for randrange()'')
      else Inr (a + int (draws g (pos g)) mod (b - a + 1), next_rng g))"

definition random_unit :: "rng \<Rightarrow> rat \<times> rng" where
  "random_unit g = (of_nat (draws g (pos g) mod 2 ^ 53) / 2 ^ 53, next_rng g)"

section \<open>Numbers\<close>

text \<open>
  Python's floats are taken as exact rationals: \<^verbatim>\<open>0.9 * n\<close> is \<open>9/10 * n\<close>.
  \<^verbatim>\<open>int(x)\<close> truncates towards zero.
\<close>

definition int_trunc :: "rat \<Rightarrow> int" where
  "int_trunc q = (if 0 \<le> q then \<lfloor>q\<rfloor> else \<lceil>q\<rceil>)"

text \<open>
  \<^verbatim>\<open>np.linspace(start, stop, num, dtype=int)\<close>: \<open>num\<close> evenly spaced numbers from
  \<open>start\<close> to \<open>stop\<close>, the last one set to \<open>stop\<close>, each rounded down to an integer
  (on the numbers that are not negative, rounding down and truncation agree).
\<close>

definition linspace_int :: "int \<Rightarrow> int \<Rightarrow> int \<Rightarrow> error + int list" where
  "linspace_int start stop num =
     (if num < 0 then Inl (ValueError ''Number of samples must be non-negative.'')
      else if num = 1 then Inr [start]
      else Inr (map (\<lambda>i. if int i = num - 1 then stop
                          else \<lfloor>of_int start + of_nat i * (of_int (stop - start) / of_int (num - 1) :: rat)\<rfloor>)
                  [0 ..< nat num]))"

section \<open>Strings and paths\<close>

text \<open>\<^verbatim>\<open>s.split(c)\<close> and \<^verbatim>\<open>sep.join(parts)\<close>\<close>

fun split_on :: "char \<Rightarrow> string \<Rightarrow> string list" where
  "split_on c [] = [[]]"
| "split_on c (x # xs) =
     (if x = c then [] # split_on c xs
      else (case split_on c xs of [] \<Rightarrow> [[x]] | w # ws \<Rightarrow> (x # w) # ws))"

fun join_with :: "string \<Rightarrow> string list \<Rightarrow> string" where
  "join_with sep [] = []"
| "join_with sep [w] = w"
| "join_with sep (w # ws) = w @ sep @ join_with sep ws"

section \<open>The world outside the data loader\<close>

text \<open>
  The file system, the video decoder, the image library and the tensor transforms are
  collaborators of the data loader. Each is a function of the environment; where the
  library call can raise, the function returns the exception. The type \<open>'d\<close> is the
  type of arrays and tensors, whose contents the data loader does not look at.
\<close>

datatype 'd read_result = FramesRead 'd | ReadTimedOut | ReadFailed error

record 'd env =
  path_join :: "string \<Rightarrow> string \<Rightarrow> string"
  dirname :: "string \<Rightarrow> string"
  makedirs :: "string \<Rightarrow> error option"
  isfile :: "string \<Rightarrow> bool"
  pickle_load :: "string \<Rightarrow> error + (string \<rightharpoonup> 'd)"
  video_reader_len :: "string \<Rightarrow> error + nat"
  video_reader_get_batch :: "string \<Rightarrow> int list \<Rightarrow> 'd read_result"
  video_to_tensor :: "'d \<Rightarrow> 'd"
  video_transforms :: "'d \<Rightarrow> 'd"
  shape0 :: "'d \<Rightarrow> int"
  image_open :: "string \<Rightarrow> error + 'd"
  image_transforms :: "'d \<Rightarrow> 'd"
  image_array :: "'d \<Rightarrow> 'd"
  py_int :: "pyval \<Rightarrow> error + int"

section \<open>ImageVideoDataset\<close>

text \<open>The attributes that \<^verbatim>\<open>__init__\<close> sets and the methods read. \<open>entries\<close> is
  \<^verbatim>\<open>self.dataset\<close>; \<^verbatim>\<open>self.length\<close> is its length.\<close>

record dataset =
  entries :: "entry list"
  data_root :: "string option"
  cache_dir :: "string option"
  enable_bucket :: bool
  text_drop_ratio :: rat
  video_length_drop_start :: rat
  video_length_drop_end :: rat
  video_sample_stride :: int
  video_sample_n_frames :: int

text \<open>What \<^verbatim>\<open>get_batch\<close> returns: three values for an image, eight for a video.\<close>

datatype 'd batch =
    Tuple3 'd pyval string
  | Tuple8 "'d option" pyval string string string "'d option" "'d option" "'d option"

text \<open>\<^verbatim>\<open>data_info[key]\<close>, and the same where the value is used as a path.\<close>

definition item :: "entry \<Rightarrow> string \<Rightarrow> error + pyval" where
  "item data k = (case data k of None \<Rightarrow> Inl KeyError | Some v \<Rightarrow> Inr v)"

definition as_path :: "pyval \<Rightarrow> error + string" where
  "as_path v = (case v of PStr s \<Rightarrow> Inr s | PInt n \<Rightarrow> Inl TypeError)"

subsection \<open>get_batch, the video branch\<close>

text \<open>
  The names \<^verbatim>\<open>vid_cache_path\<close> and \<^verbatim>\<open>text_cache_path\<close> are bound only under
  \<^verbatim>\<open>if self.cache_dir is not None\<close>: the result is \<open>None\<close> where they stay unbound.
  \<^verbatim>\<open>
  if self.cache_dir is not None:
      if self.data_root is not None:
          cache_path = f'{self.data_root}/{self.cache_dir}/{"/".join(video_id.split("/")[1:])}'
      else:
          cache_path = video_dir.split('/')
          cache_path[-3] = self.cache_dir
          cache_path = '/'.join(cache_path)
      os.makedirs(os.path.dirname(cache_path), exist_ok=True)
      vid_cache_path = cache_path[:-4]+'_vid.pkl'
      text_cache_path = cache_path[:-4]+'_txt.pkl'
  \<close>
\<close>

definition cache_paths ::
  "'d env \<Rightarrow> dataset \<Rightarrow> string \<Rightarrow> string \<Rightarrow> error + (string \<times> string) option" where
  "cache_paths env ds video_id video_dir =
     (case cache_dir ds of
        None \<Rightarrow> Inr None
      | Some cd \<Rightarrow>
          (case (case data_root ds of
                   Some root_dir \<Rightarrow>
                     Inr (root_dir @ ''/'' @ cd @ ''/'' @ join_with ''/'' (drop 1 (split_on CHR ''/'' video_id)))
                 | None \<Rightarrow>
                     (let parts = split_on CHR ''/'' video_dir in
                      if length parts < 3 then Inl IndexError
                      else Inr (join_with ''/'' (parts[length parts - 3 := cd]))))
           of
             Inl e \<Rightarrow> Inl e
           | Inr cache_path \<Rightarrow>
               (case makedirs env (dirname env cache_path) of
                  Some e \<Rightarrow> Inl e
                | None \<Rightarrow>
                    Inr (Some (take (length cache_path - 4) cache_path @ ''_vid.pkl'',
                               take (length cache_path - 4) cache_path @ ''_txt.pkl'')))))"

text \<open>
  The cached sample, when both cache files exist:
  \<^verbatim>\<open>
  if os.path.isfile(vid_cache_path) and os.path.isfile(text_cache_path):
      with open(vid_cache_path, 'rb') as f: data_item = pickle.load(f)
      latent_idx = data_item['latent_idx']
      with open(text_cache_path, 'rb') as f: data_item = pickle.load(f)
      text_embedding, text_emb_masks = data_item['text_embedding'], data_item['text_emb_masks']
      return None, text, 'video', vid_cache_path, text_cache_path, latent_idx, text_embedding, text_emb_masks
  \<close>
  \<open>None\<close> is "no cached sample, go on to read the video".
\<close>

definition cached_sample ::
  "'d env \<Rightarrow> pyval \<Rightarrow> string \<times> string \<Rightarrow> (error + 'd batch) option" where
  "cached_sample env text paths =
     (if isfile env (fst paths) \<and> isfile env (snd paths) then
        Some (case pickle_load env (fst paths) of
                Inl e \<Rightarrow> Inl e
              | Inr vid_item \<Rightarrow>
                  (case vid_item ''latent_idx'' of
                     None \<Rightarrow> Inl KeyError
                   | Some latent_idx \<Rightarrow>
                       (case pickle_load env (snd paths) of
                          Inl e \<Rightarrow> Inl e
                        | Inr txt_item \<Rightarrow>
                            (case txt_item ''text_embedding'' of
                               None \<Rightarrow> Inl KeyError
                             | Some text_embedding \<Rightarrow>
                                 (case txt_item ''text_emb_masks'' of
                                    None \<Rightarrow> Inl KeyError
                                  | Some text_emb_masks \<Rightarrow>
                                      Inr (Tuple8 None text ''video'' (fst paths) (snd paths)
                                             (Some latent_idx) (Some text_embedding)
                                             (Some text_emb_masks)))))))
      else None)"

text \<open>
  The frame indices of a clip, from the number of frames of the video:
  \<^verbatim>\<open>
  min_sample_n_frames = min(self.video_sample_n_frames,
      int(len(video_reader) * (self.video_length_drop_end - self.video_length_drop_start)))
  if min_sample_n_frames == 0:
      raise ValueError(f"No Frames in video.")
  video_length = int(self.video_length_drop_end * len(video_reader))
  clip_length = min(video_length, (min_sample_n_frames - 1) * self.video_sample_stride + 1)
  if video_length < clip_length or video_length < self.video_sample_n_frames:
      raise ValueError(f"No Enough Frames for the sample stride {self.video_sample_stride}.")
  start_idx_end = max(int(self.video_length_drop_start * video_length), video_length - clip_length)
  start_idx   = random.randint(int(self.video_length_drop_start * video_length), start_idx_end)
  batch_index = np.linspace(start_idx, start_idx + clip_length - 1, min_sample_n_frames, dtype=int)
  \<close>
\<close>

definition min_sample_n_frames :: "dataset \<Rightarrow> nat \<Rightarrow> int" where
  "min_sample_n_frames ds len =
     min (video_sample_n_frames ds)
         (int_trunc (of_nat len * (video_length_drop_end ds - video_length_drop_start ds)))"

definition video_length :: "dataset \<Rightarrow> nat \<Rightarrow> int" where
  "video_length ds len = int_trunc (video_length_drop_end ds * of_nat len)"

definition clip_length :: "dataset \<Rightarrow> nat \<Rightarrow> int" where
  "clip_length ds len =
     min (video_length ds len) ((min_sample_n_frames ds len - 1) * video_sample_stride ds + 1)"

definition batch_index :: "dataset \<Rightarrow> nat \<Rightarrow> rng \<Rightarrow> (error + int list) \<times> rng" where
  "batch_index ds len g =
     (if min_sample_n_frames ds len = 0 then (Inl (ValueError ''No Frames in video.''), g)
      else if video_length ds len < clip_length ds len
              \<or> video_length ds len < video_sample_n_frames ds
      then (Inl (ValueError ''No Enough Frames for the sample stride.''), g)
      else
        (let lo = int_trunc (video_length_drop_start ds * of_int (video_length ds len));
             start_idx_end = max lo (video_length ds len - clip_length ds len)
         in case randint g lo start_idx_end of
              Inl e \<Rightarrow> (Inl e, g)
            | Inr (start_idx, g1) \<Rightarrow>
                (linspace_int start_idx (start_idx + clip_length ds len - 1)
                   (min_sample_n_frames ds len), g1)))"

text \<open>
  Reading the frames and building the result. A time-out and any other failure of the
  read are both turned into \<^verbatim>\<open>ValueError\<close>. The \<^verbatim>\<open>return\<close> reads
  \<^verbatim>\<open>vid_cache_path\<close> and \<^verbatim>\<open>text_cache_path\<close>, which are unbound without a cache
  directory.
\<close>

definition read_video ::
  "'d env \<Rightarrow> dataset \<Rightarrow> rng \<Rightarrow> string \<Rightarrow> pyval \<Rightarrow> (string \<times> string) option
     \<Rightarrow> (error + 'd batch) \<times> rng" where
  "read_video env ds g video_dir text paths =
     (case video_reader_len env video_dir of
        Inl e \<Rightarrow> (Inl e, g)
      | Inr len \<Rightarrow>
          (case batch_index ds len g of
             (Inl e, g1) \<Rightarrow> (Inl e, g1)
           | (Inr frame_idxs, g1) \<Rightarrow>
               (case video_reader_get_batch env video_dir frame_idxs of
                  ReadTimedOut \<Rightarrow> (Inl (ValueError ''Read timeout.''), g1)
                | ReadFailed e \<Rightarrow>
                    (Inl (ValueError ''Failed to extract frames from video.''), g1)
                | FramesRead frames \<Rightarrow>
                    (let pixel_values =
                           (if \<not> enable_bucket ds
                            then video_transforms env (video_to_tensor env frames)
                            else frames)
                     in if shape0 env pixel_values < video_sample_n_frames ds
                        then (Inl (ValueError ''No enough frames from video.''), g1)
                        else
                          (case random_unit g1 of
                             (u, g2) \<Rightarrow>
                               (let text' = (if u < text_drop_ratio ds then PStr [] else text)
                                in case paths of
                                     None \<Rightarrow> (Inl UnboundLocalError, g2)
                                   | Some (vid_cache_path, text_cache_path) \<Rightarrow>
                                       (Inr (Tuple8 (Some pixel_values) text' ''video''
                                               vid_cache_path text_cache_path None None None),
                                        g2)))))))"

definition get_batch_video ::
  "'d env \<Rightarrow> dataset \<Rightarrow> rng \<Rightarrow> entry \<Rightarrow> (error + 'd batch) \<times> rng" where
  "get_batch_video env ds g data_info =
     (case item data_info ''file_path'' of
        Inl e \<Rightarrow> (Inl e, g)
      | Inr file_path \<Rightarrow>
          (case item data_info ''text'' of
             Inl e \<Rightarrow> (Inl e, g)
           | Inr text \<Rightarrow>
               (case as_path file_path of
                  Inl e \<Rightarrow> (Inl e, g)
                | Inr video_id \<Rightarrow>
                    (let video_dir =
                           (case data_root ds of
                              None \<Rightarrow> video_id
                            | Some root_dir \<Rightarrow> path_join env root_dir video_id)
                     in case cache_paths env ds video_id video_dir of
                          Inl e \<Rightarrow> (Inl e, g)
                        | Inr paths \<Rightarrow>
                            (case (case paths of
                                     None \<Rightarrow> None
                                   | Some pp \<Rightarrow> cached_sample env text pp) of
                               Some r \<Rightarrow> (r, g)
                             | None \<Rightarrow> read_video env ds g video_dir text paths)))))"

subsection \<open>get_batch, the image branch\<close>

text \<open>
  \<^verbatim>\<open>
  image_path, text = data_info['file_path'], data_info['text']
  if self.data_root is not None:
      image_path = os.path.join(self.data_root, image_path)
  image = Image.open(image_path).convert('RGB')
  if not self.enable_bucket:
      image = self.image_transforms(image).unsqueeze(0)
  else:
      image = np.expand_dims(np.array(image), 0)
  if random.random() < self.text_drop_ratio:
      text = ''
  return image, text, 'image'
  \<close>
\<close>

definition get_batch_image ::
  "'d env \<Rightarrow> dataset \<Rightarrow> rng \<Rightarrow> entry \<Rightarrow> (error + 'd batch) \<times> rng" where
  "get_batch_image env ds g data_info =
     (case item data_info ''file_path'' of
        Inl e \<Rightarrow> (Inl e, g)
      | Inr file_path \<Rightarrow>
          (case item data_info ''text'' of
             Inl e \<Rightarrow> (Inl e, g)
           | Inr text \<Rightarrow>
               (case as_path file_path of
                  Inl e \<Rightarrow> (Inl e, g)
                | Inr path0 \<Rightarrow>
                    (let image_path =
                           (case data_root ds of
                              None \<Rightarrow> path0
                            | Some root_dir \<Rightarrow> path_join env root_dir path0)
                     in case image_open env image_path of
                          Inl e \<Rightarrow> (Inl e, g)
                        | Inr opened \<Rightarrow>
                            (let img = (if \<not> enable_bucket ds
                                        then image_transforms env opened
                                        else image_array env opened)
                             in case random_unit g of
                                  (u, g1) \<Rightarrow>
                                    (Inr (Tuple3 img
                                            (if u < text_drop_ratio ds then PStr [] else text)
                                            ''image''), g1))))))"

definition get_batch ::
  "'d env \<Rightarrow> dataset \<Rightarrow> rng \<Rightarrow> int \<Rightarrow> entry \<Rightarrow> (error + 'd batch) \<times> rng" where
  "get_batch env ds g idx data_info =
     (if get_type data_info = PStr ''video'' then get_batch_video env ds g data_info
      else get_batch_image env ds g data_info)"

subsection \<open>__getitem__\<close>

text \<open>The dictionary \<^verbatim>\<open>sample\<close> once all its keys are set; \<open>s_label\<close> is there only
  when the entry has a \<^verbatim>\<open>label\<close>.\<close>

record 'd sample =
  s_pixel_values :: "'d option"
  s_text :: pyval
  s_data_type :: string
  s_idx :: int
  s_vid_cache_path :: string
  s_text_cache_path :: string
  s_latent_idx :: "'d option"
  s_text_embedding :: "'d option"
  s_text_emb_masks :: "'d option"
  s_label :: "int option"

text \<open>
  One pass through the body of \<^verbatim>\<open>try\<close>: the entry at \<^verbatim>\<open>idx % len(self.dataset)\<close>,
  the test of its type against the type of the entry first asked for, \<^verbatim>\<open>get_batch\<close>,
  the unpacking of its result into eight names (a result of three values raises
  \<^verbatim>\<open>ValueError\<close>), and the assembly of \<^verbatim>\<open>sample\<close>.
\<close>

definition attempt ::
  "'d env \<Rightarrow> dataset \<Rightarrow> pyval \<Rightarrow> rng \<Rightarrow> int \<Rightarrow> (error + 'd sample) \<times> rng" where
  "attempt env ds data_type g idx =
     (if entries ds = [] then (Inl ZeroDivisionError, g)
      else
      let data_info_local = entries ds ! nat (idx mod int (length (entries ds)));
          data_type_local = get_type data_info_local
      in if data_type_local \<noteq> data_type
         then (Inl (ValueError ''data_type_local != data_type''), g)
         else
           (case get_batch env ds g idx data_info_local of
              (Inl e, g1) \<Rightarrow> (Inl e, g1)
            | (Inr (Tuple3 img text ty), g1) \<Rightarrow>
                (Inl (ValueError ''not enough values to unpack (expected 8, got 3)''), g1)
            | (Inr (Tuple8 pixel_values name ty vid_cache_path text_cache_path
                      latent_idx text_embedding text_emb_masks), g1) \<Rightarrow>
                (let sample = \<lparr>s_pixel_values = pixel_values, s_text = name, s_data_type = ty,
                               s_idx = idx, s_vid_cache_path = vid_cache_path,
                               s_text_cache_path = text_cache_path, s_latent_idx = latent_idx,
                               s_text_embedding = text_embedding,
                               s_text_emb_masks = text_emb_masks, s_label = None\<rparr>
                 in case data_info_local ''label'' of
                      None \<Rightarrow> (Inr sample, g1)
                    | Some l \<Rightarrow>
                        (case py_int env l of
                           Inl e \<Rightarrow> (Inl e, g1)
                         | Inr n \<Rightarrow> (Inr (sample\<lparr>s_label := Some n\<rparr>), g1)))))"

text \<open>
  The loop \<^verbatim>\<open>while True\<close>. It has no bound, so the model counts the passes it may
  still make: \<open>None\<close> is "not returned within that many passes". \<open>printed\<close> collects
  what the handler prints, the exception and the entry at the failed index.
  \<^verbatim>\<open>
  while True:
      sample = {}
      try:
          ...
          if len(sample) > 0:
              break
      except Exception as e:
          print(e, self.dataset[idx % len(self.dataset)])
          idx = random.randint(0, self.length-1)
  return sample
  \<close>
  The dictionary has at least nine keys when the test \<^verbatim>\<open>len(sample) > 0\<close> is reached, so
  every pass that does not raise leaves the loop.
\<close>

fun getitem_loop ::
  "'d env \<Rightarrow> dataset \<Rightarrow> pyval \<Rightarrow> nat \<Rightarrow> rng \<Rightarrow> int \<Rightarrow> (error \<times> entry) list
     \<Rightarrow> (error + 'd sample \<times> (error \<times> entry) list \<times> rng) option" where
  "getitem_loop env ds data_type 0 g idx printed = None"
| "getitem_loop env ds data_type (Suc passes) g idx printed =
     (case attempt env ds data_type g idx of
        (Inr sample, g1) \<Rightarrow> Some (Inr (sample, printed, g1))
      | (Inl e, g1) \<Rightarrow>
          if entries ds = [] then Some (Inl ZeroDivisionError)
          else
          (case randint g1 0 (int (length (entries ds)) - 1) of
             Inl e' \<Rightarrow> Some (Inl e')
           | Inr (idx', g2) \<Rightarrow>
               getitem_loop env ds data_type passes g2 idx'
                 (printed @ [(e, entries ds ! nat (idx mod int (length (entries ds))))])))"

text \<open>
  \<^verbatim>\<open>__getitem__\<close>. Before the loop, \<^verbatim>\<open>self.dataset[idx % len(self.dataset)]\<close> divides by
  the length of the entry list; so does the handler's \<^verbatim>\<open>print\<close>, outside any
  \<^verbatim>\<open>try\<close>.
\<close>

definition getitem ::
  "'d env \<Rightarrow> dataset \<Rightarrow> nat \<Rightarrow> rng \<Rightarrow> int
     \<Rightarrow> (error + 'd sample \<times> (error \<times> entry) list \<times> rng) option" where
  "getitem env ds passes g idx =
     (if entries ds = [] then Some (Inl ZeroDivisionError)
      else getitem_loop env ds
             (get_type (entries ds ! nat (idx mod int (length (entries ds))))) passes g idx [])"

section \<open>Example inputs\<close>

text \<open>
  A data loader with two video entries and a cache directory. The video of the first
  entry cannot be opened and has no cache files; the second entry has both cache files.
\<close>

definition example_env :: "nat env" where
  "example_env =
     \<lparr>path_join = (\<lambda>a b. a @ ''/'' @ b),
      dirname = (\<lambda>p. p),
      makedirs = (\<lambda>p. None),
      isfile = (\<lambda>p. p = ''r/c/b_vid.pkl'' \<or> p = ''r/c/b_txt.pkl''),
      pickle_load = (\<lambda>p. Inr [''latent_idx'' \<mapsto> 1, ''text_embedding'' \<mapsto> 2,
                              ''text_emb_masks'' \<mapsto> 3]),
      video_reader_len = (\<lambda>p. Inl (ExternalError ''cannot open'')),
      video_reader_get_batch = (\<lambda>p frame_idxs. ReadTimedOut),
      video_to_tensor = (\<lambda>d. d),
      video_transforms = (\<lambda>d. d),
      shape0 = (\<lambda>d. 0),
      image_open = (\<lambda>p. Inr 7),
      image_transforms = (\<lambda>d. d),
      image_array = (\<lambda>d. d),
      py_int = (\<lambda>v. case v of PInt n \<Rightarrow> Inr n | PStr s \<Rightarrow> Inl (ValueError []))\<rparr>"

definition example_videos :: dataset where
  "example_videos =
     \<lparr>entries =
        [[''type'' \<mapsto> PStr ''video'', ''file_path'' \<mapsto> PStr ''v/a.mp4'', ''text'' \<mapsto> PStr ''a''],
         [''type'' \<mapsto> PStr ''video'', ''file_path'' \<mapsto> PStr ''v/b.mp4'', ''text'' \<mapsto> PStr ''b'']],
      data_root = Some ''r'', cache_dir = Some ''c'', enable_bucket = False,
      text_drop_ratio = 0, video_length_drop_start = 1 / 10, video_length_drop_end = 9 / 10,
      video_sample_stride = 4, video_sample_n_frames = 16\<rparr>"

text \<open>A data loader with one image entry, whose file opens.\<close>

definition example_images :: dataset where
  "example_images =
     \<lparr>entries = [[''file_path'' \<mapsto> PStr ''a.png'', ''text'' \<mapsto> PStr ''a cat'']],
      data_root = None, cache_dir = None, enable_bucket = False,
      text_drop_ratio = 0, video_length_drop_start = 1 / 10, video_length_drop_end = 9 / 10,
      video_sample_stride = 4, video_sample_n_frames = 16\<rparr>"

text \<open>A stream of draws that are all 1.\<close>

definition ones :: rng where
  "ones = \<lparr>draws = (\<lambda>n. 1), pos = 0\<rparr>"

chapter \<open>The conditional transformer: OmniTokenizer/lm_transformer.py\<close>

section \<open>Token tensors\<close>

text \<open>
  A tensor of shape \<open>[B, L]\<close> is its rows together with \<open>L\<close>, which a tensor with no
  rows still has. \<open>t.shape[1]\<close> is \<open>ncols t\<close>; in a well-formed tensor every row has
  that many entries.
\<close>

datatype 'a tensor = Tensor (ncols: nat) (rows: "'a list list")

definition well_formed :: "'a tensor \<Rightarrow> bool" where
  "well_formed t \<longleftrightarrow> list_all (\<lambda>r. length r = ncols t) (rows t)"

text \<open>\<^verbatim>\<open>t + k\<close>\<close>

definition add_scalar :: "int tensor \<Rightarrow> int \<Rightarrow> int tensor" where
  "add_scalar t k = Tensor (ncols t) (map (map (\<lambda>v. v + k)) (rows t))"

text \<open>Sequencing of steps that can raise.\<close>

definition bind_err :: "error + 'a \<Rightarrow> ('a \<Rightarrow> error + 'b) \<Rightarrow> error + 'b" where
  "bind_err r f = (case r of Inl e \<Rightarrow> Inl e | Inr v \<Rightarrow> f v)"

text \<open>\<^verbatim>\<open>torch.cat((a, b), dim=1)\<close>: the rows side by side; the tensors must have the same
  number of rows. \<^verbatim>\<open>torch.cat\<close> of a longer tuple joins from the left to the right.\<close>

definition cat1 :: "'a tensor \<Rightarrow> 'a tensor \<Rightarrow> error + 'a tensor" where
  "cat1 a b =
     (if length (rows a) \<noteq> length (rows b) then Inl RuntimeError
      else Inr (Tensor (ncols a + ncols b) (map2 (@) (rows a) (rows b))))"

fun cat_dim1 :: "'a tensor list \<Rightarrow> error + 'a tensor" where
  "cat_dim1 [] = Inl RuntimeError"
| "cat_dim1 [t] = Inr t"
| "cat_dim1 (t # ts) = bind_err (cat_dim1 ts) (cat1 t)"

text \<open>
  \<^verbatim>\<open>t[:, start:stop]\<close>, with Python's reading of the bounds: a negative bound counts
  from the end, and both are clipped to \<open>[0, L]\<close>. \<open>None\<close> is an omitted bound.
\<close>

definition slice_index :: "nat \<Rightarrow> int \<Rightarrow> nat" where
  "slice_index n i = (if i < 0 then nat (int n + i) else min (nat i) n)"

definition col_slice :: "'a tensor \<Rightarrow> int option \<Rightarrow> int option \<Rightarrow> 'a tensor" where
  "col_slice t start stop =
     (let lo = (case start of None \<Rightarrow> 0 | Some i \<Rightarrow> slice_index (ncols t) i);
          hi = (case stop of None \<Rightarrow> ncols t | Some j \<Rightarrow> slice_index (ncols t) j)
      in Tensor (hi - lo) (map (\<lambda>r. take (hi - lo) (drop lo r)) (rows t)))"

section \<open>Net2NetTransformer.__init__\<close>

text \<open>
  The arguments of the constructor that the modelled methods depend on. An attribute
  that \<^verbatim>\<open>args\<close> may lack (\<^verbatim>\<open>hasattr\<close>) is an option. \<open>first_stage_n_codes\<close> and
  \<open>stft_n_codes\<close> are the codebook sizes of the tokenizers loaded from checkpoints.
\<close>

record args =
  unconditional :: bool
  class_cond_dim :: int
  vtokens :: bool
  args_starts_with_sos :: "bool option"
  args_p_drop_cond :: "rat option"
  args_class_first :: "bool option"
  block_size :: int
  first_stage_n_codes :: int
  stft_n_codes :: int

datatype cond_stage = Labelator int | StftTokenizer | Identity | SOSProvider int

text \<open>The attributes of the module.\<close>

record net =
  be_unconditional :: bool
  cond_stage_key :: string
  cond_stage_model :: cond_stage
  cond_stage_vocab_size :: int
  first_stage_vocab_size :: int
  starts_with_sos :: bool
  p_drop_cond :: "rat option"
  class_first :: bool
  sos_token :: int
  pkeep :: rat
  vocab_size :: int
  net_block_size :: int
  training :: bool
  transformer_training :: bool

text \<open>
  \<^verbatim>\<open>init_cond_stage_from_ckpt\<close>: the conditioning stage, its vocabulary size and the key
  of the conditioning in a batch. The branches are tried in the order of the source: the
  key \<^verbatim>\<open>'stft'\<close> or \<^verbatim>\<open>'text'\<close> is served before \<^verbatim>\<open>be_unconditional\<close> is looked at.
  The last branch builds a \<^verbatim>\<open>ValueError\<close> and does not raise it, and nothing is set
  (\<open>None\<close>).
\<close>

definition init_cond_stage_from_ckpt ::
  "args \<Rightarrow> string \<Rightarrow> string \<Rightarrow> int \<Rightarrow> (cond_stage \<times> int \<times> string) option" where
  "init_cond_stage_from_ckpt a key first_stage_key sos =
     (if key = ''label'' \<and> \<not> unconditional a
        then Some (Labelator (class_cond_dim a), class_cond_dim a, key)
      else if key = ''stft'' then Some (StftTokenizer, stft_n_codes a, key)
      else if key = ''text'' then Some (Identity, 49408, key)
      else if unconditional a then Some (SOSProvider sos, 0, first_stage_key)
      else None)"

text \<open>
  \<^verbatim>\<open>__init__\<close>. Where no conditioning stage was set, reading
  \<^verbatim>\<open>self.cond_stage_vocab_size\<close> raises. A module is in training mode when it is built.
\<close>

definition net_init :: "args \<Rightarrow> string \<Rightarrow> string \<Rightarrow> rat \<Rightarrow> int \<Rightarrow> error + net" where
  "net_init a first_stage_key key keep sos =
     (case init_cond_stage_from_ckpt a key first_stage_key sos of
        None \<Rightarrow> Inl AttributeError
      | Some (model, cond_vocab, key') \<Rightarrow>
          (let first_vocab = (if \<not> vtokens a then first_stage_n_codes a else 16384);
               with_sos = (if unconditional a then False
                           else (case args_starts_with_sos a of None \<Rightarrow> False | Some b \<Rightarrow> b))
           in Inr \<lparr>be_unconditional = unconditional a,
                   cond_stage_key = key',
                   cond_stage_model = model,
                   cond_stage_vocab_size = cond_vocab,
                   first_stage_vocab_size = first_vocab,
                   starts_with_sos = with_sos,
                   p_drop_cond = args_p_drop_cond a,
                   class_first = (case args_class_first a of None \<Rightarrow> False | Some b \<Rightarrow> b),
                   sos_token = sos,
                   pkeep = keep,
                   vocab_size = first_vocab + cond_vocab + (if with_sos then 1 else 0),
                   net_block_size = block_size a,
                   training = True,
                   transformer_training = True\<rparr>))"

section \<open>Net2NetTransformer.forward\<close>

text \<open>
  Modelled from the spec: \<^verbatim>\<open>SOSProvider.encode\<close> of \<^verbatim>\<open>modules/encoders.py\<close> is not
  among the sources. It provides the start-of-sequence token that is prepended to the
  visual tokens: one column holding \<^verbatim>\<open>sos_token\<close>, with a row for each sample of the
  batch.
\<close>

definition sos_encode :: "int \<Rightarrow> nat \<Rightarrow> int tensor" where
  "sos_encode sos batch_rows = Tensor 1 (replicate batch_rows [sos])"

text \<open>
  \<^verbatim>\<open>encode_to_c\<close>: the indices of the conditioning. For a label, a spectrogram or a
  text they come from the conditioning stage (\<open>c_tokens\<close>, two-dimensional once
  \<^verbatim>\<open>view\<close> has flattened them); the conditioning stage of an unconditional model
  gives the start-of-sequence token.
\<close>

definition encode_to_c :: "net \<Rightarrow> int tensor \<Rightarrow> nat \<Rightarrow> int tensor" where
  "encode_to_c n c_tokens batch_rows =
     (case cond_stage_model n of
        SOSProvider sos \<Rightarrow> sos_encode sos batch_rows
      | _ \<Rightarrow> c_tokens)"

text \<open>
  What is drawn at random in one call of \<^verbatim>\<open>forward\<close>: the outcome of
  \<^verbatim>\<open>torch.bernoulli\<close> and of \<^verbatim>\<open>torch.randint_like\<close> at each position of
  \<^verbatim>\<open>z_indices\<close>, and the number that \<^verbatim>\<open>random.random()\<close> returns.
\<close>

record noise =
  keep :: "nat \<Rightarrow> nat \<Rightarrow> bool"
  replacement :: "nat \<Rightarrow> nat \<Rightarrow> nat"
  coin :: rat

text \<open>
  \<^verbatim>\<open>
  mask = torch.bernoulli(self.pkeep*torch.ones(z_indices.shape, device=z_indices.device))
  mask = mask.round().to(dtype=torch.int64)
  r_indices = torch.randint_like(z_indices, self.transformer.config.vocab_size)
  a_indices = mask*z_indices+(1-mask)*r_indices
  \<close>
  \<^verbatim>\<open>torch.bernoulli\<close> wants probabilities in \<open>[0, 1]\<close> and \<^verbatim>\<open>torch.randint_like\<close> a
  positive bound.
\<close>

definition corrupt :: "net \<Rightarrow> noise \<Rightarrow> int tensor \<Rightarrow> error + int tensor" where
  "corrupt n ns z_indices =
     (if pkeep n < 0 \<or> vocab_size n \<le> 0 then Inl RuntimeError
      else Inr (Tensor (ncols z_indices)
             (map (\<lambda>(i, row).
                     map (\<lambda>(j, z).
                            of_bool (keep ns i j) * z
                              + (1 - of_bool (keep ns i j))
                                  * (int (replacement ns i j) mod vocab_size n))
                       (enumerate 0 row))
                (enumerate 0 (rows z_indices)))))"

text \<open>The shifts of the two index tensors, and the tokens fed in place of \<^verbatim>\<open>z_indices\<close>.
  \<^verbatim>\<open>
  if self.starts_with_sos:
      _, sos = self.sos_provider.encode(c)
      c_indices = c_indices + 1
      z_indices = z_indices + self.cond_stage_vocab_size + 1
  else:
      z_indices = z_indices + self.cond_stage_vocab_size
  if self.training and self.pkeep < 1.0:
      ...
  else:
      a_indices = z_indices
  \<close>
\<close>

definition shifted_c :: "net \<Rightarrow> int tensor \<Rightarrow> int tensor" where
  "shifted_c n c_indices = (if starts_with_sos n then add_scalar c_indices 1 else c_indices)"

definition shifted_z :: "net \<Rightarrow> int tensor \<Rightarrow> int tensor" where
  "shifted_z n z_indices =
     (if starts_with_sos n then add_scalar (add_scalar z_indices (cond_stage_vocab_size n)) 1
      else add_scalar z_indices (cond_stage_vocab_size n))"

definition a_indices :: "net \<Rightarrow> noise \<Rightarrow> int tensor \<Rightarrow> error + int tensor" where
  "a_indices n ns z_indices =
     (if training n \<and> pkeep n < 1 then corrupt n ns z_indices else Inr z_indices)"

text \<open>
  The splice, lines 163 to 184 of the source: the sequence \<^verbatim>\<open>cz_indices\<close> and
  \<^verbatim>\<open>prefix_len\<close>, from the shifted conditioning, the start-of-sequence column and the
  tokens \<^verbatim>\<open>a_indices\<close>. The condition is kept when
  \<^verbatim>\<open>random.random() > self.p_drop_cond\<close>.
\<close>

definition splice ::
  "net \<Rightarrow> noise \<Rightarrow> int tensor \<Rightarrow> int tensor \<Rightarrow> int tensor \<Rightarrow> error + int tensor \<times> int" where
  "splice n ns c_indices sos a =
     (if starts_with_sos n then
        (case p_drop_cond n of
           Some p \<Rightarrow>
             if coin ns > p then
               (if class_first n
                then bind_err (cat_dim1 [c_indices, sos, a])
                       (\<lambda>cz. Inr (cz, 1 + int (ncols c_indices) - 1))
                else bind_err (cat_dim1 [sos, c_indices, a])
                       (\<lambda>cz. Inr (cz, 1 + int (ncols c_indices) - 1)))
             else bind_err (cat_dim1 [c_indices, a])
                    (\<lambda>cz. Inr (cz, int (ncols c_indices) - 1))
         | None \<Rightarrow>
             (if class_first n
              then bind_err (cat_dim1 [c_indices, sos, a])
                     (\<lambda>cz. Inr (cz, 1 + int (ncols c_indices) - 1))
              else bind_err (cat_dim1 [sos, c_indices, a])
                     (\<lambda>cz. Inr (cz, 1 + int (ncols c_indices) - 1))))
      else bind_err (cat_dim1 [c_indices, a])
             (\<lambda>cz. Inr (cz, int (ncols c_indices) - 1)))"

text \<open>The condition is dropped: \<^verbatim>\<open>p_drop_cond\<close> is set and
  \<^verbatim>\<open>random.random() > self.p_drop_cond\<close> is false.\<close>

definition condition_dropped :: "net \<Rightarrow> noise \<Rightarrow> bool" where
  "condition_dropped n ns = (case p_drop_cond n of None \<Rightarrow> False | Some p \<Rightarrow> \<not> coin ns > p)"

text \<open>
  \<^verbatim>\<open>forward\<close>, from the indices of the two stages. \<open>z_tokens\<close> is what
  \<^verbatim>\<open>encode_to_z\<close> returns, \<open>c_tokens\<close> what the conditioning stage returns,
  \<open>batch_rows\<close> is \<^verbatim>\<open>c.shape[0]\<close>. The transformer \<open>gpt\<close> is a collaborator: a
  function from the token tensor to the tensor of logits, one entry of type \<open>'l\<close> for
  each position.
  \<^verbatim>\<open>
  target = z_indices
  logits, _ = self.transformer(cz_indices[:, :-1], cbox=cbox)
  logits = logits[:, prefix_len:]
  assert logits.shape[1] == target.shape[1]
  return logits, target
  \<close>
\<close>

definition cz_indices ::
  "net \<Rightarrow> noise \<Rightarrow> nat \<Rightarrow> int tensor \<Rightarrow> int tensor \<Rightarrow> error + int tensor \<times> int" where
  "cz_indices n ns batch_rows z_tokens c_tokens =
     bind_err (a_indices n ns (shifted_z n z_tokens))
       (\<lambda>a. splice n ns (shifted_c n (encode_to_c n c_tokens batch_rows))
               (sos_encode (sos_token n) batch_rows) a)"

definition forward ::
  "net \<Rightarrow> (int tensor \<Rightarrow> 'l tensor) \<Rightarrow> noise \<Rightarrow> nat \<Rightarrow> int tensor \<Rightarrow> int tensor
     \<Rightarrow> error + 'l tensor \<times> int tensor" where
  "forward n gpt ns batch_rows z_tokens c_tokens =
     bind_err (cz_indices n ns batch_rows z_tokens c_tokens)
       (\<lambda>(cz, prefix_len).
          (let target = shifted_z n z_tokens;
               logits = col_slice (gpt (col_slice cz None (Some (- 1)))) (Some prefix_len) None
           in if ncols logits = ncols target then Inr (logits, target)
              else Inl AssertionError))"

section \<open>Net2NetTransformer.sample\<close>

text \<open>
  The choice of a token from the logits of a position (temperature, top-k, softmax,
  and then a draw or the most likely token) is the function \<open>pick\<close>, which is given
  the number of the iteration. \<^verbatim>\<open>logits[:, -1, :]\<close> needs a last position.
\<close>

definition last_logits :: "'l tensor \<Rightarrow> error + 'l list" where
  "last_logits logits =
     (if ncols logits = 0 then Inl IndexError else Inr (map last (rows logits)))"

text \<open>
  One iteration of the loop:
  \<^verbatim>\<open>
  assert x.size(1) <= block_size
  x_cond = x if x.size(1) <= block_size else x[:, -block_size:]
  logits, _ = self.transformer(x_cond)
  logits = logits[:, -1, :] / temperature
  ...
  x = torch.cat((x, ix), dim=1)
  \<close>
\<close>

definition sample_step ::
  "net \<Rightarrow> (int tensor \<Rightarrow> 'l tensor) \<Rightarrow> (nat \<Rightarrow> 'l \<Rightarrow> int) \<Rightarrow> nat \<Rightarrow> int tensor
     \<Rightarrow> error + int tensor" where
  "sample_step n gpt pick k x =
     (if \<not> int (ncols x) \<le> net_block_size n then Inl AssertionError
      else bind_err (last_logits (gpt x))
             (\<lambda>logits. cat_dim1 [x, Tensor 1 (map (\<lambda>l. [pick k l]) logits)]))"

text \<open>\<^verbatim>\<open>for k in range(steps)\<close>, counted by the iterations still to run.\<close>

fun sample_loop ::
  "net \<Rightarrow> (int tensor \<Rightarrow> 'l tensor) \<Rightarrow> (nat \<Rightarrow> 'l \<Rightarrow> int) \<Rightarrow> nat \<Rightarrow> nat \<Rightarrow> int tensor
     \<Rightarrow> error + int tensor" where
  "sample_loop n gpt pick 0 k x = Inr x"
| "sample_loop n gpt pick (Suc todo) k x =
     bind_err (sample_step n gpt pick k x) (sample_loop n gpt pick todo (Suc k))"

text \<open>
  \<^verbatim>\<open>sample\<close>. In the branch \<^verbatim>\<open>pkeep <= 0\<close> the tokens of all positions are chosen in
  one pass (\<open>ix\<close>, a token for each position of the logits), from the sequence
  extended by \<^verbatim>\<open>noise = c.clone()[:,x.shape[1]-c.shape[1]:-1]\<close>.
\<close>

definition sample_tokens ::
  "net \<Rightarrow> (int tensor \<Rightarrow> 'l tensor) \<Rightarrow> (nat \<Rightarrow> 'l \<Rightarrow> int) \<Rightarrow> int tensor \<Rightarrow> int tensor \<Rightarrow> int
     \<Rightarrow> error + int tensor" where
  "sample_tokens n gpt pick x c steps =
     bind_err (cat_dim1 [c, x])
       (\<lambda>x0.
          if transformer_training n then Inl AssertionError
          else if pkeep n \<le> 0 then
            bind_err (cat_dim1 [x0, col_slice c (Some (int (ncols x0) - int (ncols c))) (Some (- 1))])
              (\<lambda>x1.
                 (let logits = gpt x1;
                      ix = Tensor (ncols logits) (map (map (pick 0)) (rows logits))
                  in Inr (col_slice ix (Some (int (ncols c) - 1)) None)))
          else
            bind_err (sample_loop n gpt pick (nat steps) 0 x0)
              (\<lambda>x1. Inr (col_slice x1 (Some (int (ncols c))) None)))"

text \<open>The transformer returns logits for every position of every row.\<close>

definition shape_preserving :: "(int tensor \<Rightarrow> 'l tensor) \<Rightarrow> bool" where
  "shape_preserving gpt \<longleftrightarrow>
     (\<forall>t. ncols (gpt t) = ncols t \<and> length (rows (gpt t)) = length (rows t))"

section \<open>Example inputs for the transformer\<close>

text \<open>
  Arguments for a model on video tokens (\<^verbatim>\<open>vtokens\<close>) with ten classes; the other
  examples change single fields. \<open>example_net\<close> is the module built from them with
  \<^verbatim>\<open>cond_stage_key = 'label'\<close> and \<^verbatim>\<open>pkeep = 0.5\<close>; \<open>example_text_net\<close> the module built
  with \<^verbatim>\<open>cond_stage_key = 'text'\<close> and \<^verbatim>\<open>pkeep = 1.0\<close>.
\<close>

definition example_args :: args where
  "example_args =
     \<lparr>unconditional = False, class_cond_dim = 10, vtokens = True,
      args_starts_with_sos = None, args_p_drop_cond = None, args_class_first = None,
      block_size = 5, first_stage_n_codes = 16384, stft_n_codes = 1024\<rparr>"

definition example_net :: net where
  "example_net =
     \<lparr>be_unconditional = False, cond_stage_key = ''label'',
      cond_stage_model = Labelator 10, cond_stage_vocab_size = 10,
      first_stage_vocab_size = 16384, starts_with_sos = False, p_drop_cond = None,
      class_first = False, sos_token = 0, pkeep = 1 / 2, vocab_size = 16394,
      net_block_size = 5, training = True, transformer_training = True\<rparr>"

definition example_text_net :: net where
  "example_text_net =
     \<lparr>be_unconditional = False, cond_stage_key = ''text'',
      cond_stage_model = Identity, cond_stage_vocab_size = 49408,
      first_stage_vocab_size = 16384, starts_with_sos = False, p_drop_cond = None,
      class_first = False, sos_token = 0, pkeep = 1, vocab_size = 65792,
      net_block_size = 5, training = True, transformer_training = True\<rparr>"

text \<open>Draws that keep the first token of each row and replace every other token by
  token 7; the number drawn by \<^verbatim>\<open>random.random()\<close> is 0.\<close>

definition keep_first :: noise where
  "keep_first = \<lparr>keep = (\<lambda>i j. j = 0), replacement = (\<lambda>i j. 7), coin = 0\<rparr>"

text \<open>\<open>example_sos_net\<close> is built with \<^verbatim>\<open>starts_with_sos\<close>, \<^verbatim>\<open>class_first\<close>,
  \<^verbatim>\<open>p_drop_cond = 0.5\<close> and \<^verbatim>\<open>pkeep = 1.0\<close>; \<open>example_unconditional_net\<close> with
  \<^verbatim>\<open>unconditional = True\<close>, the default \<^verbatim>\<open>cond_stage_key = 'label'\<close> and
  \<^verbatim>\<open>sos_token = 9\<close>.\<close>

definition example_sos_net :: net where
  "example_sos_net =
     \<lparr>be_unconditional = False, cond_stage_key = ''label'',
      cond_stage_model = Labelator 10, cond_stage_vocab_size = 10,
      first_stage_vocab_size = 16384, starts_with_sos = True, p_drop_cond = Some (1 / 2),
      class_first = True, sos_token = 0, pkeep = 1, vocab_size = 16395,
      net_block_size = 5, training = True, transformer_training = True\<rparr>"

definition example_unconditional_net :: net where
  "example_unconditional_net =
     \<lparr>be_unconditional = True, cond_stage_key = ''video'',
      cond_stage_model = SOSProvider 9, cond_stage_vocab_size = 0,
      first_stage_vocab_size = 16384, starts_with_sos = False, p_drop_cond = None,
      class_first = False, sos_token = 9, pkeep = 1, vocab_size = 16384,
      net_block_size = 5, training = True, transformer_training = True\<rparr>"

chapter \<open>Properties\<close>

section \<open>Properties of the entry list\<close>

lemma repeat_videos_concat:
  "repeat_videos n dataset = concat (replicate n (video_entries dataset))"
  by (induction n) simp_all

lemma length_repeat_videos:
  "length (repeat_videos n dataset) = n * length (video_entries dataset)"
  by (induction n) simp_all

lemma init_dataset_nonpositive:
  "video_repeat \<le> 0 \<Longrightarrow> init_dataset dataset video_repeat = non_video_entries dataset"
  by (simp add: init_dataset_def)

text \<open>
  C9, as stated, at a negative repeat count: an annotation file with one video entry and
  \<^verbatim>\<open>video_repeat = -1\<close>. The guard \<^verbatim>\<open>video_repeat > 0\<close> skips the passes, the entry
  list is empty, and the claimed length \<open>n_non_video + video_repeat * n_video\<close> would be
  \<open>-1\<close>.
\<close>

theorem init_dataset_negative_repeat_counterexample:
  "int (length (init_dataset [[''type'' \<mapsto> PStr ''video'']] (- 1))) \<noteq>
     int (length (non_video_entries [[''type'' \<mapsto> PStr ''video'']]))
       + (- 1) * int (length (video_entries [[''type'' \<mapsto> PStr ''video'']]))"
  by (simp add: init_dataset_def non_video_entries_def video_entries_def get_type_def)

text \<open>
  C9, amended: the entry list is all non-video entries once, in their order, followed by
  \<open>max video_repeat 0\<close> full passes over the video entries; its length is
  \<open>n_non_video + max video_repeat 0 * n_video\<close>; and with \<^verbatim>\<open>video_repeat = 0\<close> (the
  default) the list holds the non-video entries only, so no video entry is in it.
\<close>

theorem init_dataset_entries:
  "init_dataset dataset video_repeat =
     non_video_entries dataset
       @ concat (replicate (nat (max video_repeat 0)) (video_entries dataset))
   \<and> int (length (init_dataset dataset video_repeat)) =
       int (length (non_video_entries dataset))
         + max video_repeat 0 * int (length (video_entries dataset))
   \<and> init_dataset dataset 0 = non_video_entries dataset
   \<and> video_entries (init_dataset dataset 0) = []"
proof -
  have entries: "init_dataset dataset video_repeat =
     non_video_entries dataset
       @ concat (replicate (nat (max video_repeat 0)) (video_entries dataset))"
    by (simp add: init_dataset_def repeat_videos_concat max_def)
  have len: "int (length (init_dataset dataset video_repeat)) =
       int (length (non_video_entries dataset))
         + max video_repeat 0 * int (length (video_entries dataset))"
    by (simp add: init_dataset_def length_repeat_videos max_def)
  have zero: "init_dataset dataset 0 = non_video_entries dataset"
    by (simp add: init_dataset_def)
  have novideo: "video_entries (init_dataset dataset 0) = []"
    by (simp add: zero non_video_entries_def video_entries_def)
  from entries len zero novideo show ?thesis by blast
qed

theorem init_dataset_entries_witness:
  "length (init_dataset [[''type'' \<mapsto> PStr ''video''], Map.empty] 2) = 3
   \<and> length (init_dataset [[''type'' \<mapsto> PStr ''video''], Map.empty] 0) = 1"
  using init_dataset_entries [of "[[''type'' \<mapsto> PStr ''video''], Map.empty]" 2]
  by (simp add: non_video_entries_def video_entries_def get_type_def)

section \<open>The batches of ImageVideoSampler\<close>

lemma bucket_append_fields:
  "bucket_append s ct idx = Inr s1 \<Longrightarrow>
     s_dataset s1 = s_dataset s \<and> batch_size s1 = batch_size s \<and>
     image_batch_size s1 = image_batch_size s \<and> drop_last s1 = drop_last s"
  by (auto simp: bucket_append_def split: if_splits)

lemma bucket_append_typed:
  "buckets_typed s \<Longrightarrow> py_index (s_dataset s) idx = Inr data \<Longrightarrow>
   bucket_append s (get_type data) idx = Inr s1 \<Longrightarrow> buckets_typed s1"
  by (auto simp: bucket_append_def buckets_typed_def has_type_def split: if_splits)

lemma bucket_append_mset:
  "bucket_append s ct idx = Inr s1 \<Longrightarrow>
   mset (bucket_video s1) + mset (bucket_image s1) =
   add_mset idx (mset (bucket_video s) + mset (bucket_image s))"
  by (auto simp: bucket_append_def split: if_splits)

lemma sampler_iter_fields:
  "sampler_iter s idxs = (batches, s', err) \<Longrightarrow>
     s_dataset s' = s_dataset s \<and> batch_size s' = batch_size s \<and>
     image_batch_size s' = image_batch_size s \<and> drop_last s' = drop_last s"
proof (induction idxs arbitrary: s batches s' err)
  case Nil
  then show ?case by simp
next
  case (Cons idx rest)
  then show ?case
    by (fastforce split: sum.splits if_splits prod.splits dest: bucket_append_fields)
qed

lemma sampler_iter_bucketed:
  "buckets_typed s \<Longrightarrow> sampler_iter s idxs = (batches, s', err) \<Longrightarrow>
     list_all (bucketed s) batches \<and> buckets_typed s'"
proof (induction idxs arbitrary: s batches s' err)
  case Nil
  then show ?case by simp
next
  case (Cons idx rest)
  show ?case
  proof (cases "py_index (s_dataset s) idx")
    case (Inl e)
    with Cons.prems show ?thesis by simp
  next
    case (Inr data)
    show ?thesis
    proof (cases "bucket_append s (get_type data) idx")
      case (Inl e)
      with Inr Cons.prems show ?thesis by simp
    next
      case s1: (Inr s1)
      have typed1: "buckets_typed s1"
        using Cons.prems(1) Inr s1 by (rule bucket_append_typed)
      have fields: "s_dataset s1 = s_dataset s" "batch_size s1 = batch_size s"
          "image_batch_size s1 = image_batch_size s"
        using bucket_append_fields [OF s1] by simp_all
      have same: "\<And>t. s_dataset t = s_dataset s1 \<Longrightarrow> batch_size t = batch_size s1 \<Longrightarrow>
          image_batch_size t = image_batch_size s1 \<Longrightarrow> bucketed t = bucketed s"
        by (rule ext) (simp add: bucketed_def fields)
      show ?thesis
      proof (cases "int (length (bucket_video s1)) = batch_size s1")
        case True
        obtain bs s2 e where rec: "sampler_iter (s1\<lparr>bucket_video := []\<rparr>) rest = (bs, s2, e)"
          by (cases "sampler_iter (s1\<lparr>bucket_video := []\<rparr>) rest") auto
        have "buckets_typed (s1\<lparr>bucket_video := []\<rparr>)"
          using typed1 by (simp add: buckets_typed_def)
        from Cons.IH [OF this rec]
        have "list_all (bucketed s) bs" and "buckets_typed s2"
          by (simp_all add: same)
        moreover have "bucketed s (bucket_video s1)"
          using True typed1 by (simp add: bucketed_def buckets_typed_def fields)
        moreover have "batches = bucket_video s1 # bs" "s' = s2"
          using Cons.prems(2) Inr s1 True rec by simp_all
        ultimately show ?thesis by simp
      next
        case nv: False
        show ?thesis
        proof (cases "int (length (bucket_image s1)) = image_batch_size s1")
          case True
          obtain bs s2 e where rec: "sampler_iter (s1\<lparr>bucket_image := []\<rparr>) rest = (bs, s2, e)"
            by (cases "sampler_iter (s1\<lparr>bucket_image := []\<rparr>) rest") auto
          have "buckets_typed (s1\<lparr>bucket_image := []\<rparr>)"
            using typed1 by (simp add: buckets_typed_def)
          from Cons.IH [OF this rec]
          have "list_all (bucketed s) bs" and "buckets_typed s2"
            by (simp_all add: same)
          moreover have "bucketed s (bucket_image s1)"
            using True typed1 by (simp add: bucketed_def buckets_typed_def fields)
          moreover have "batches = bucket_image s1 # bs" "s' = s2"
            using Cons.prems(2) Inr s1 nv True rec by simp_all
          ultimately show ?thesis by simp
        next
          case False
          have "sampler_iter s1 rest = (batches, s', err)"
            using Cons.prems(2) Inr s1 nv False by simp
          from Cons.IH [OF typed1 this] show ?thesis
            by (simp add: same)
        qed
      qed
    qed
  qed
qed

lemma sampler_iter_conserves:
  "sampler_iter s idxs = (batches, s', None) \<Longrightarrow>
     mset (concat batches) + (mset (bucket_video s') + mset (bucket_image s')) =
     mset idxs + (mset (bucket_video s) + mset (bucket_image s))"
proof (induction idxs arbitrary: s batches s')
  case Nil
  then show ?case by simp
next
  case (Cons idx rest)
  from Cons.prems obtain data where data: "py_index (s_dataset s) idx = Inr data"
    by (cases "py_index (s_dataset s) idx") auto
  from Cons.prems data obtain s1 where s1: "bucket_append s (get_type data) idx = Inr s1"
    by (cases "bucket_append s (get_type data) idx") auto
  note app = bucket_append_mset [OF s1]
  show ?case
  proof (cases "int (length (bucket_video s1)) = batch_size s1")
    case True
    obtain bs s2 e where rec: "sampler_iter (s1\<lparr>bucket_video := []\<rparr>) rest = (bs, s2, e)"
      by (cases "sampler_iter (s1\<lparr>bucket_video := []\<rparr>) rest") auto
    with Cons.prems data s1 True have eq: "batches = bucket_video s1 # bs" "s' = s2" "e = None"
      by simp_all
    from Cons.IH [OF rec [unfolded eq(3)]]
    have "mset (concat batches) + (mset (bucket_video s') + mset (bucket_image s')) =
        mset rest + (mset (bucket_video s1) + mset (bucket_image s1))"
      by (simp add: eq)
    with app show ?thesis by simp
  next
    case nv: False
    show ?thesis
    proof (cases "int (length (bucket_image s1)) = image_batch_size s1")
      case True
      obtain bs s2 e where rec: "sampler_iter (s1\<lparr>bucket_image := []\<rparr>) rest = (bs, s2, e)"
        by (cases "sampler_iter (s1\<lparr>bucket_image := []\<rparr>) rest") auto
      with Cons.prems data s1 nv True have eq: "batches = bucket_image s1 # bs" "s' = s2" "e = None"
        by simp_all
      from Cons.IH [OF rec [unfolded eq(3)]]
      have "mset (concat batches) + (mset (bucket_video s') + mset (bucket_image s')) =
          mset rest + (mset (bucket_video s1) + mset (bucket_image s1))"
        by (simp add: eq)
      with app show ?thesis by simp
    next
      case False
      with Cons.prems data s1 nv have "sampler_iter s1 rest = (batches, s', None)"
        by simp
      from Cons.IH [OF this] app show ?thesis by simp
    qed
  qed
qed

lemma bucket_append_drop_last:
  "bucket_append (s\<lparr>drop_last := d\<rparr>) ct idx = map_sum id (\<lambda>t. t\<lparr>drop_last := d\<rparr>) (bucket_append s ct idx)"
  by (simp add: bucket_append_def)

lemma sampler_iter_drop_last:
  "sampler_iter (s\<lparr>drop_last := d\<rparr>) idxs =
     (case sampler_iter s idxs of (batches, s', err) \<Rightarrow> (batches, s'\<lparr>drop_last := d\<rparr>, err))"
proof (induction idxs arbitrary: s)
  case Nil
  show ?case by simp
next
  case (Cons idx rest)
  show ?case
  proof (cases "py_index (s_dataset s) idx")
    case (Inl e)
    then show ?thesis by simp
  next
    case (Inr data)
    show ?thesis
    proof (cases "bucket_append s (get_type data) idx")
      case (Inl e)
      with Inr show ?thesis by (simp add: bucket_append_drop_last)
    next
      case s1: (Inr s1)
      have v: "s1\<lparr>drop_last := d, bucket_video := []\<rparr> = s1\<lparr>bucket_video := [], drop_last := d\<rparr>"
        and i: "s1\<lparr>drop_last := d, bucket_image := []\<rparr> = s1\<lparr>bucket_image := [], drop_last := d\<rparr>"
        by simp_all
      show ?thesis
        using Inr s1
        by (simp add: bucket_append_drop_last v i Cons.IH split: prod.splits)
    qed
  qed
qed

lemma sampler_init_typed:
  "sampler_init dataset bs ibs dl = Inr s \<Longrightarrow> buckets_typed s \<and> 0 < batch_size s"
  by (auto simp: sampler_init_def buckets_typed_def split: if_splits)

text \<open>
  C6, as stated, over two passes. \<^verbatim>\<open>self.bucket\<close> is set in \<^verbatim>\<open>__init__\<close> and no
  \<^verbatim>\<open>__iter__\<close> empties it. Five entries (videos at 0, 2 and 4, images at 1 and 3),
  both batch sizes 2, the base sampler \<open>0, 1, 2, 3, 4\<close>: when the first pass ends, index
  4 sits in the video bucket; the second pass over the same sampler yields it, in the
  batch \<open>[4, 0]\<close>.
\<close>

theorem sampler_iter_second_pass_counterexample:
  "sampler_iter
     \<lparr>s_dataset = [[''type'' \<mapsto> PStr ''video''], [''type'' \<mapsto> PStr ''image''],
                   [''type'' \<mapsto> PStr ''video''], Map.empty, [''type'' \<mapsto> PStr ''video'']],
      batch_size = 2, image_batch_size = 2, drop_last = False,
      bucket_image = [], bucket_video = []\<rparr> [0, 1, 2, 3, 4]
   = ([[0, 2], [1, 3]],
      \<lparr>s_dataset = [[''type'' \<mapsto> PStr ''video''], [''type'' \<mapsto> PStr ''image''],
                   [''type'' \<mapsto> PStr ''video''], Map.empty, [''type'' \<mapsto> PStr ''video'']],
      batch_size = 2, image_batch_size = 2, drop_last = False,
      bucket_image = [], bucket_video = [4]\<rparr>, None)
   \<and> sampler_iter
     \<lparr>s_dataset = [[''type'' \<mapsto> PStr ''video''], [''type'' \<mapsto> PStr ''image''],
                   [''type'' \<mapsto> PStr ''video''], Map.empty, [''type'' \<mapsto> PStr ''video'']],
      batch_size = 2, image_batch_size = 2, drop_last = False,
      bucket_image = [], bucket_video = [4]\<rparr> [0, 1, 2, 3, 4]
   = ([[4, 0], [1, 3], [2, 4]],
      \<lparr>s_dataset = [[''type'' \<mapsto> PStr ''video''], [''type'' \<mapsto> PStr ''image''],
                   [''type'' \<mapsto> PStr ''video''], Map.empty, [''type'' \<mapsto> PStr ''video'']],
      batch_size = 2, image_batch_size = 2, drop_last = False,
      bucket_image = [], bucket_video = []\<rparr>, None)"
  by (simp add: py_index_def get_type_def bucket_append_def)

text \<open>
  C6, amended to one pass: every batch that \<^verbatim>\<open>__iter__\<close> yields is bucketed. Started
  with buckets that hold indices of their own type (the empty buckets of \<^verbatim>\<open>__init__\<close>,
  or what an earlier pass left), each yielded batch is either \<^verbatim>\<open>batch_size\<close> indices
  that all refer to video entries or \<^verbatim>\<open>image_batch_size\<close> indices that all refer to
  image entries. When the base sampler is exhausted the loop ends without a last yield:
  every index that the pass drew or found in a bucket is in exactly one place, a batch
  yielded by this pass or a bucket, so what sits in the buckets at the end was not
  yielded by this pass. \<^verbatim>\<open>drop_last\<close> is never read: changing it changes neither the
  batches nor the buckets.
\<close>

theorem sampler_iter_batches_bucketed:
  assumes typed: "buckets_typed s"
    and run: "sampler_iter s idxs = (batches, s', err)"
  shows "list_all (bucketed s) batches
    \<and> (err = None \<longrightarrow>
         mset (concat batches) + (mset (bucket_video s') + mset (bucket_image s')) =
         mset idxs + (mset (bucket_video s) + mset (bucket_image s)))
    \<and> sampler_iter (s\<lparr>drop_last := d\<rparr>) idxs = (batches, s'\<lparr>drop_last := d\<rparr>, err)"
proof -
  have sizes: "list_all (bucketed s) batches"
    using sampler_iter_bucketed [OF typed run] by simp
  have rest: "err = None \<longrightarrow>
         mset (concat batches) + (mset (bucket_video s') + mset (bucket_image s')) =
         mset idxs + (mset (bucket_video s) + mset (bucket_image s))"
    using run by (auto dest: sampler_iter_conserves)
  have flag: "sampler_iter (s\<lparr>drop_last := d\<rparr>) idxs = (batches, s'\<lparr>drop_last := d\<rparr>, err)"
    by (simp add: sampler_iter_drop_last run)
  from sizes rest flag show ?thesis by blast
qed

text \<open>
  A run of the theorem: five entries (videos at 0, 2 and 4, images at 1 and 3, the
  second image without a \<^verbatim>\<open>type\<close> key), both batch sizes 2. The batches are
  \<open>[0, 2]\<close> and \<open>[1, 3]\<close>; index 4 stays in the video bucket and is not yielded.
\<close>

theorem sampler_iter_batches_bucketed_witness:
  "sampler_iter
     \<lparr>s_dataset = [[''type'' \<mapsto> PStr ''video''], [''type'' \<mapsto> PStr ''image''],
                   [''type'' \<mapsto> PStr ''video''], Map.empty, [''type'' \<mapsto> PStr ''video'']],
      batch_size = 2, image_batch_size = 2, drop_last = False,
      bucket_image = [], bucket_video = []\<rparr> [0, 1, 2, 3, 4]
   = ([[0, 2], [1, 3]],
      \<lparr>s_dataset = [[''type'' \<mapsto> PStr ''video''], [''type'' \<mapsto> PStr ''image''],
                   [''type'' \<mapsto> PStr ''video''], Map.empty, [''type'' \<mapsto> PStr ''video'']],
      batch_size = 2, image_batch_size = 2, drop_last = False,
      bucket_image = [], bucket_video = [4]\<rparr>, None)
   \<and> list_all (bucketed
     \<lparr>s_dataset = [[''type'' \<mapsto> PStr ''video''], [''type'' \<mapsto> PStr ''image''],
                   [''type'' \<mapsto> PStr ''video''], Map.empty, [''type'' \<mapsto> PStr ''video'']],
      batch_size = 2, image_batch_size = 2, drop_last = False,
      bucket_image = [], bucket_video = []\<rparr>) [[0, 2], [1, 3]]"
proof -
  let ?s = "\<lparr>s_dataset = [[''type'' \<mapsto> PStr ''video''], [''type'' \<mapsto> PStr ''image''],
                   [''type'' \<mapsto> PStr ''video''], Map.empty, [''type'' \<mapsto> PStr ''video'']],
      batch_size = 2, image_batch_size = 2, drop_last = False,
      bucket_image = [], bucket_video = []\<rparr>"
  have typed: "buckets_typed ?s"
    by (simp add: buckets_typed_def)
  have run: "sampler_iter ?s [0, 1, 2, 3, 4] = ([[0, 2], [1, 3]], ?s\<lparr>bucket_video := [4]\<rparr>, None)"
    by (simp add: py_index_def get_type_def bucket_append_def)
  from sampler_iter_batches_bucketed [OF typed run] run show ?thesis by simp
qed

section \<open>The retry loop of __getitem__\<close>

lemma randint_range:
  assumes "a \<le> b"
  shows "\<exists>r. randint g a b = Inr (r, next_rng g) \<and> a \<le> r \<and> r \<le> b"
proof -
  let ?m = "int (draws g (pos g)) mod (b - a + 1)"
  from assms have "0 < b - a + 1" by simp
  then have "0 \<le> ?m" and "?m < b - a + 1"
    by (rule pos_mod_sign, rule pos_mod_bound)
  then have "a \<le> a + ?m" and "a + ?m \<le> b" by linarith+
  with assms show ?thesis unfolding randint_def by auto
qed

lemma randint_Inr:
  "randint g a b = Inr (r, g') \<Longrightarrow> a \<le> r \<and> r \<le> b \<and> g' = next_rng g"
  using randint_range [of a b g] by (auto simp: randint_def split: if_splits)

lemma get_batch_image_result:
  "get_batch_image env ds g data_info = (Inr b, g') \<Longrightarrow> \<exists>img text ty. b = Tuple3 img text ty"
  by (auto simp: get_batch_image_def Let_def split: sum.splits prod.splits)

lemma attempt_non_video:
  assumes "data_type \<noteq> PStr ''video''"
  shows "\<exists>e g'. attempt env ds data_type g idx = (Inl e, g')"
proof (cases "entries ds = []")
  case True
  then show ?thesis by (simp add: attempt_def)
next
  case False
  define d where "d = entries ds ! nat (idx mod int (length (entries ds)))"
  show ?thesis
  proof (cases "get_type d = data_type")
    case ne: False
    with False show ?thesis by (simp add: attempt_def d_def Let_def)
  next
    case True
    with assms have img: "get_batch env ds g idx d = get_batch_image env ds g d"
      by (simp add: get_batch_def)
    obtain r g1 where r: "get_batch_image env ds g d = (r, g1)"
      by (cases "get_batch_image env ds g d") auto
    show ?thesis
    proof (cases r)
      case (Inl e)
      with False True img r show ?thesis
        by (simp add: attempt_def d_def [symmetric] Let_def)
    next
      case (Inr b)
      with r get_batch_image_result obtain im tx ty where "b = Tuple3 im tx ty"
        by blast
      with Inr False True img r show ?thesis
        by (simp add: attempt_def d_def [symmetric] Let_def)
    qed
  qed
qed

lemma getitem_loop_non_video:
  assumes "entries ds \<noteq> []" and "data_type \<noteq> PStr ''video''"
  shows "getitem_loop env ds data_type passes g idx printed = None"
proof (induction passes arbitrary: g idx printed)
  case 0
  show ?case by simp
next
  case (Suc passes)
  from attempt_non_video [OF assms(2)] obtain e g1
    where a: "attempt env ds data_type g idx = (Inl e, g1)" by blast
  from assms(1) have "0 \<le> int (length (entries ds)) - 1" by (cases "entries ds") auto
  from randint_range [OF this] obtain r
    where r: "randint g1 0 (int (length (entries ds)) - 1) = Inr (r, next_rng g1)" by blast
  show ?case using a r assms(1) Suc.IH by simp
qed


lemma getitem_loop_no_error:
  assumes "entries ds \<noteq> []"
  shows "getitem_loop env ds data_type passes g idx printed \<noteq> Some (Inl e)"
proof (induction passes arbitrary: g idx printed)
  case 0
  show ?case by simp
next
  case (Suc passes)
  obtain r g1 where a: "attempt env ds data_type g idx = (r, g1)"
    by (cases "attempt env ds data_type g idx") auto
  from assms have "0 \<le> int (length (entries ds)) - 1" by (cases "entries ds") auto
  from randint_range [OF this] obtain i
    where i: "randint g1 0 (int (length (entries ds)) - 1) = Inr (i, next_rng g1)" by blast
  show ?case
  proof (cases r)
    case (Inl e')
    with a i assms Suc.IH show ?thesis by simp
  next
    case (Inr sample)
    with a show ?thesis by simp
  qed
qed

lemma getitem_loop_returns:
  assumes "getitem_loop env ds data_type passes g idx printed = Some (Inr (sample, printed', g'))"
  shows "\<exists>g0 fails. attempt env ds data_type g0 (s_idx sample) = (Inr sample, g')
            \<and> printed' = printed @ fails \<and> length fails < passes"
  using assms
proof (induction passes arbitrary: g idx printed)
  case 0
  then show ?case by simp
next
  case (Suc passes)
  obtain r g1 where a: "attempt env ds data_type g idx = (r, g1)"
    by (cases "attempt env ds data_type g idx") auto
  show ?case
  proof (cases r)
    case (Inr s)
    with a Suc.prems have eq: "sample = s" "printed' = printed" "g' = g1" by simp_all
    have "s_idx s = idx"
      using a Inr
      by (auto simp: attempt_def Let_def split: if_splits sum.splits prod.splits batch.splits option.splits)
    with a Inr eq show ?thesis by auto
  next
    case (Inl e)
    with a Suc.prems have ne: "entries ds \<noteq> []"
      by (auto split: if_splits)
    from a Inl Suc.prems ne obtain i g2
      where i: "randint g1 0 (int (length (entries ds)) - 1) = Inr (i, g2)"
        and rec: "getitem_loop env ds data_type passes g2 i
                    (printed @ [(e, entries ds ! nat (idx mod int (length (entries ds))))])
                  = Some (Inr (sample, printed', g'))"
      by (auto split: sum.splits)
    from Suc.IH [OF rec] obtain g0 fails
      where "attempt env ds data_type g0 (s_idx sample) = (Inr sample, g')"
        and "printed' = (printed @ [(e, entries ds ! nat (idx mod int (length (entries ds))))]) @ fails"
        and "length fails < passes" by blast
    then show ?thesis
      by (intro exI [of _ g0]
            exI [of _ "(e, entries ds ! nat (idx mod int (length (entries ds)))) # fails"]) simp
  qed
qed


text \<open>
  C4: \<^verbatim>\<open>__getitem__\<close> is fault-tolerant. No exception raised inside the \<^verbatim>\<open>try\<close> (by
  \<^verbatim>\<open>get_batch\<close>, by the unpacking of its result or by the assembly of the sample)
  leaves the method: the only exception \<^verbatim>\<open>__getitem__\<close> can raise is the division by
  zero on an empty entry list, before a sample is loaded. A pass that raises prints the
  exception with the entry, draws the next index from \<^verbatim>\<open>random.randint\<close> within
  \<open>[0, length - 1]\<close> and goes round again; a pass that does not raise returns its
  sample at once; and a returned sample is the result of a pass that did not raise, at
  the index the sample records. (That the draw is uniform is the contract of
  \<^verbatim>\<open>random.randint\<close>; the model has the range only.)
\<close>

theorem getitem_fault_tolerant:
  "(entries ds \<noteq> [] \<longrightarrow> getitem env ds passes g idx \<noteq> Some (Inl e))
   \<and> (attempt env ds data_type g idx = (Inr sample, g1) \<longrightarrow>
        getitem_loop env ds data_type (Suc passes) g idx printed
          = Some (Inr (sample, printed, g1)))
   \<and> (entries ds \<noteq> [] \<and> attempt env ds data_type g idx = (Inl e, g1) \<longrightarrow>
        (\<exists>idx'. randint g1 0 (int (length (entries ds)) - 1) = Inr (idx', next_rng g1)
           \<and> 0 \<le> idx' \<and> idx' \<le> int (length (entries ds)) - 1
           \<and> getitem_loop env ds data_type (Suc passes) g idx printed
               = getitem_loop env ds data_type passes (next_rng g1) idx'
                   (printed @ [(e, entries ds ! nat (idx mod int (length (entries ds))))])))
   \<and> (getitem env ds passes g idx = Some (Inr (sample, printed', g')) \<longrightarrow>
        (\<exists>g0. attempt env ds
                 (get_type (entries ds ! nat (idx mod int (length (entries ds)))))
                 g0 (s_idx sample) = (Inr sample, g'))
        \<and> length printed' < passes)"
proof -
  have never: "entries ds \<noteq> [] \<longrightarrow> getitem env ds passes g idx \<noteq> Some (Inl e)"
    by (simp add: getitem_def getitem_loop_no_error)
  have succeed: "attempt env ds data_type g idx = (Inr sample, g1) \<longrightarrow>
        getitem_loop env ds data_type (Suc passes) g idx printed
          = Some (Inr (sample, printed, g1))"
    by simp
  have retry: "entries ds \<noteq> [] \<and> attempt env ds data_type g idx = (Inl e, g1) \<longrightarrow>
        (\<exists>idx'. randint g1 0 (int (length (entries ds)) - 1) = Inr (idx', next_rng g1)
           \<and> 0 \<le> idx' \<and> idx' \<le> int (length (entries ds)) - 1
           \<and> getitem_loop env ds data_type (Suc passes) g idx printed
               = getitem_loop env ds data_type passes (next_rng g1) idx'
                   (printed @ [(e, entries ds ! nat (idx mod int (length (entries ds))))]))"
  proof
    assume a: "entries ds \<noteq> [] \<and> attempt env ds data_type g idx = (Inl e, g1)"
    then have "0 \<le> int (length (entries ds)) - 1" by (cases "entries ds") auto
    from randint_range [OF this] obtain r
      where r: "randint g1 0 (int (length (entries ds)) - 1) = Inr (r, next_rng g1)"
        and range: "0 \<le> r" "r \<le> int (length (entries ds)) - 1" by blast
    with a show "\<exists>idx'. randint g1 0 (int (length (entries ds)) - 1) = Inr (idx', next_rng g1)
           \<and> 0 \<le> idx' \<and> idx' \<le> int (length (entries ds)) - 1
           \<and> getitem_loop env ds data_type (Suc passes) g idx printed
               = getitem_loop env ds data_type passes (next_rng g1) idx'
                   (printed @ [(e, entries ds ! nat (idx mod int (length (entries ds))))])"
      by (intro exI [of _ r]) simp
  qed
  have only: "getitem env ds passes g idx = Some (Inr (sample, printed', g')) \<longrightarrow>
        (\<exists>g0. attempt env ds
                 (get_type (entries ds ! nat (idx mod int (length (entries ds)))))
                 g0 (s_idx sample) = (Inr sample, g'))
        \<and> length printed' < passes"
  proof
    assume ret: "getitem env ds passes g idx = Some (Inr (sample, printed', g'))"
    then have "getitem_loop env ds
        (get_type (entries ds ! nat (idx mod int (length (entries ds))))) passes g idx []
        = Some (Inr (sample, printed', g'))"
      by (simp add: getitem_def split: if_splits)
    from getitem_loop_returns [OF this]
    show "(\<exists>g0. attempt env ds
                 (get_type (entries ds ! nat (idx mod int (length (entries ds)))))
                 g0 (s_idx sample) = (Inr sample, g'))
        \<and> length printed' < passes"
      by auto
  qed
  from never succeed retry only show ?thesis by blast
qed

text \<open>
  The theorem at work on \<open>example_videos\<close>: the pass at index 0 raises (the video
  cannot be opened), the exception is printed with the entry, the draw gives index 1,
  and the pass there returns the cached sample.
\<close>

theorem getitem_fault_tolerant_witness:
  "attempt example_env example_videos (PStr ''video'') ones 0
     = (Inl (ExternalError ''cannot open''), ones)
   \<and> getitem example_env example_videos 2 ones 0 =
       Some (Inr (\<lparr>s_pixel_values = None, s_text = PStr ''b'', s_data_type = ''video'',
                    s_idx = 1, s_vid_cache_path = ''r/c/b_vid.pkl'',
                    s_text_cache_path = ''r/c/b_txt.pkl'', s_latent_idx = Some 1,
                    s_text_embedding = Some 2, s_text_emb_masks = Some 3, s_label = None\<rparr>,
                  [(ExternalError ''cannot open'', entries example_videos ! 0)],
                  ones\<lparr>pos := 1\<rparr>))
   \<and> (\<exists>g0. attempt example_env example_videos (PStr ''video'') g0 1 =
         (Inr \<lparr>s_pixel_values = None, s_text = PStr ''b'', s_data_type = ''video'',
                    s_idx = 1, s_vid_cache_path = ''r/c/b_vid.pkl'',
                    s_text_cache_path = ''r/c/b_txt.pkl'', s_latent_idx = Some 1,
                    s_text_embedding = Some 2, s_text_emb_masks = Some 3, s_label = None\<rparr>,
          ones\<lparr>pos := 1\<rparr>))"
proof -
  let ?sample = "\<lparr>s_pixel_values = None, s_text = PStr ''b'', s_data_type = ''video'',
                    s_idx = 1, s_vid_cache_path = ''r/c/b_vid.pkl'',
                    s_text_cache_path = ''r/c/b_txt.pkl'', s_latent_idx = Some (1::nat),
                    s_text_embedding = Some 2, s_text_emb_masks = Some 3, s_label = None\<rparr>"
  have first: "attempt example_env example_videos (PStr ''video'') ones 0
     = (Inl (ExternalError ''cannot open''), ones)"
    by (simp add: attempt_def example_env_def example_videos_def get_type_def get_batch_def
        get_batch_video_def item_def as_path_def cache_paths_def cached_sample_def
        read_video_def Let_def)
  have run: "getitem example_env example_videos 2 ones 0 =
       Some (Inr (?sample, [(ExternalError ''cannot open'', entries example_videos ! 0)],
                  ones\<lparr>pos := 1\<rparr>))"
    by (simp add: getitem_def numeral_2_eq_2 attempt_def example_env_def example_videos_def
        get_type_def get_batch_def get_batch_video_def item_def as_path_def cache_paths_def
        cached_sample_def read_video_def Let_def randint_def next_rng_def ones_def)
  have ty: "get_type (entries example_videos ! 0) = PStr ''video''"
    by (simp add: example_videos_def get_type_def)
  note returned = getitem_fault_tolerant [where ds = example_videos and env = example_env
      and passes = 2 and g = ones and idx = 0 and sample = ?sample
      and printed' = "[(ExternalError ''cannot open'', entries example_videos ! 0)]"
      and g' = "ones\<lparr>pos := 1\<rparr>",
      THEN conjunct2, THEN conjunct2, THEN conjunct2, THEN mp, OF run, THEN conjunct1]
  then have "\<exists>g0. attempt example_env example_videos (PStr ''video'') g0 1
      = (Inr ?sample, ones\<lparr>pos := 1\<rparr>)"
    by (simp add: ty)
  with first run show ?thesis by blast
qed

text \<open>
  C5 fails on the code. For an image entry \<^verbatim>\<open>get_batch\<close> returns three values,
  \<^verbatim>\<open>return image, text, 'image'\<close>, and \<^verbatim>\<open>__getitem__\<close> unpacks eight: the unpacking
  raises \<^verbatim>\<open>ValueError\<close> inside the \<^verbatim>\<open>try\<close>, the handler draws another index, and no
  pass on an entry that is not a video can succeed. On \<open>example_images\<close>, whose one
  entry is an image that opens, \<^verbatim>\<open>get_batch\<close> returns the image, the caption and
  \<^verbatim>\<open>'image'\<close>, and \<^verbatim>\<open>__getitem__\<close> has not returned after any number of passes.
\<close>

theorem getitem_image_never_returns:
  "get_batch example_env example_images g 0 (entries example_images ! 0)
     = (Inr (Tuple3 7 (PStr ''a cat'') ''image''), next_rng g)
   \<and> getitem example_env example_images passes g 0 = None"
proof -
  have batch: "get_batch example_env example_images g 0 (entries example_images ! 0)
     = (Inr (Tuple3 7 (PStr ''a cat'') ''image''), next_rng g)"
    by (simp add: example_env_def example_images_def get_type_def get_batch_def
        get_batch_image_def item_def as_path_def random_unit_def Let_def)
  have ne: "entries example_images \<noteq> []"
    by (simp add: example_images_def)
  have ty: "get_type (entries example_images ! nat (0 mod int (length (entries example_images))))
      \<noteq> PStr ''video''"
    by (simp add: example_images_def get_type_def)
  have "getitem example_env example_images passes g 0 = None"
    using getitem_loop_non_video [OF ne ty] ne by (simp add: getitem_def)
  with batch show ?thesis by simp
qed

section \<open>The frame indices of a clip\<close>

lemma int_trunc_nonneg: "0 \<le> q \<Longrightarrow> int_trunc q = \<lfloor>q\<rfloor>"
  by (simp add: int_trunc_def)

lemma trunc_nine_tenths: "int_trunc (9 / 10 * of_nat n) = (9 * int n) div 10"
proof -
  have "(9 / 10 * of_nat n :: rat) = of_int (9 * int n) / of_int 10" by simp
  then have "\<lfloor>9 / 10 * of_nat n :: rat\<rfloor> = (9 * int n) div 10"
    by (simp only: floor_divide_of_int_eq)
  then show ?thesis by (simp add: int_trunc_def)
qed

lemma trunc_one_tenth: "0 \<le> v \<Longrightarrow> int_trunc (1 / 10 * of_int v) = v div 10"
proof -
  assume "0 \<le> v"
  have "(1 / 10 * of_int v :: rat) = of_int v / of_int 10" by simp
  then have "\<lfloor>1 / 10 * of_int v :: rat\<rfloor> = v div 10"
    by (simp only: floor_divide_of_int_eq)
  with \<open>0 \<le> v\<close> show ?thesis by (simp add: int_trunc_def)
qed

lemma linspace_point:
  fixes d :: int and i :: nat and k :: int
  assumes "0 \<le> d" and "int i \<le> k" and "0 < k"
  shows "0 \<le> \<lfloor>of_nat i * (of_int d / of_int k :: rat)\<rfloor>"
    and "\<lfloor>of_nat i * (of_int d / of_int k :: rat)\<rfloor> \<le> d"
proof -
  let ?r = "of_nat i * (of_int d / of_int k :: rat)"
  from assms have "0 \<le> ?r" by simp
  then show "0 \<le> \<lfloor>?r\<rfloor>" by simp
  have "?r = (of_nat i / of_int k) * of_int d" by simp
  moreover have le1: "(of_nat i / of_int k :: rat) \<le> 1"
    using assms by (simp add: divide_le_eq_1)
  moreover from le1 have "(of_nat i / of_int k) * of_int d \<le> 1 * (of_int d :: rat)"
    using assms(1) by (intro mult_right_mono) simp_all
  ultimately have "?r \<le> of_int d"
    by simp
  then show "\<lfloor>?r\<rfloor> \<le> d" by (simp add: floor_le_iff) 
qed

lemma linspace_int_bounds:
  assumes "start \<le> stop" and "linspace_int start stop num = Inr xs" and "x \<in> set xs"
  shows "start \<le> x \<and> x \<le> stop"
proof (cases "num = 1")
  case True
  with assms show ?thesis by (auto simp: linspace_int_def)
next
  case False
  with assms(2) have nn: "0 \<le> num"
    and xs: "xs = map (\<lambda>i. if int i = num - 1 then stop
                          else \<lfloor>of_int start + of_nat i * (of_int (stop - start) / of_int (num - 1) :: rat)\<rfloor>)
                  [0 ..< nat num]"
    by (auto simp: linspace_int_def split: if_splits)
  from assms(3) xs obtain i where i: "i < nat num"
    and x: "x = (if int i = num - 1 then stop
                 else \<lfloor>of_int start + of_nat i * (of_int (stop - start) / of_int (num - 1) :: rat)\<rfloor>)"
    by auto
  show ?thesis
  proof (cases "int i = num - 1")
    case True
    with x assms(1) show ?thesis by simp
  next
    case ne: False
    from i have "int i \<le> num - 1" by linarith
    moreover from i False nn have "0 < num - 1" by linarith
    moreover from assms(1) have "0 \<le> stop - start" by simp
    ultimately have b: "0 \<le> \<lfloor>of_nat i * (of_int (stop - start) / of_int (num - 1) :: rat)\<rfloor>"
      "\<lfloor>of_nat i * (of_int (stop - start) / of_int (num - 1) :: rat)\<rfloor> \<le> stop - start"
      by (simp_all only: linspace_point)
    have "\<lfloor>of_int start + of_nat i * (of_int (stop - start) / of_int (num - 1) :: rat)\<rfloor>
        = start + \<lfloor>of_nat i * (of_int (stop - start) / of_int (num - 1) :: rat)\<rfloor>"
      by (metis floor_add_int add.commute)
    with x ne
    have "x = start + \<lfloor>of_nat i * (of_int (stop - start) / of_int (num - 1) :: rat)\<rfloor>"
      by simp
    with b show ?thesis by linarith
  qed
qed


lemma linspace_int_returns: "0 \<le> num \<Longrightarrow> \<exists>xs. linspace_int start stop num = Inr xs"
  by (simp add: linspace_int_def)

text \<open>
  C10, as stated, at a negative stride: the default data loader but
  \<^verbatim>\<open>video_sample_stride = -4\<close>, a video of 100 frames, and the draw that makes
  \<^verbatim>\<open>start_idx\<close> its upper end. Then \<^verbatim>\<open>min_sample_n_frames = 16\<close>,
  \<^verbatim>\<open>video_length = 90\<close> and \<^verbatim>\<open>clip_length = -59\<close>: the three checks pass
  (\<open>16 > 0\<close>, \<open>90 \<ge> -59\<close>, \<open>90 \<ge> 16\<close>), \<^verbatim>\<open>start_idx_end = max(9, 149)\<close>, and the
  frame indices run from 149 down to 89, past the last frame, 99.
\<close>

theorem batch_index_negative_stride_counterexample:
  "min_sample_n_frames (example_videos\<lparr>video_sample_stride := - 4\<rparr>) 100 = 16
   \<and> video_length (example_videos\<lparr>video_sample_stride := - 4\<rparr>) 100 = 90
   \<and> clip_length (example_videos\<lparr>video_sample_stride := - 4\<rparr>) 100 = - 59
   \<and> video_sample_n_frames (example_videos\<lparr>video_sample_stride := - 4\<rparr>) = 16
   \<and> fst (batch_index (example_videos\<lparr>video_sample_stride := - 4\<rparr>) 100
            \<lparr>draws = (\<lambda>n. 140), pos = 0\<rparr>)
       = Inr [149, 145, 141, 137, 133, 129, 125, 121, 117, 113, 109, 105, 101, 97, 93, 89]
   \<and> \<not> (149 \<le> int 100 - 1)"
  by code_simp

text \<open>
  C10, amended with the condition that the stride is not negative: with
  \<^verbatim>\<open>video_length_drop_start = 0.1\<close>, \<^verbatim>\<open>video_length_drop_end = 0.9\<close> and
  \<^verbatim>\<open>video_sample_stride >= 0\<close>, for every video that passes the length checks
  (\<^verbatim>\<open>min_sample_n_frames > 0\<close>, \<^verbatim>\<open>video_length >= clip_length\<close>,
  \<^verbatim>\<open>video_length >= video_sample_n_frames\<close>) the frame indices are computed, and
  every one of them lies in \<open>[0, len(video_reader) - 1]\<close>, whatever \<^verbatim>\<open>start_idx\<close> is
  drawn. The products with \<open>0.1\<close>, \<open>0.8\<close> and \<open>0.9\<close> are exact here; the bound has a
  margin of a hundredth of the video (\<open>start_idx + clip_length - 1 < 0.99 * len\<close>).
\<close>

theorem batch_index_in_range:
  assumes start: "video_length_drop_start ds = 1 / 10"
    and finish: "video_length_drop_end ds = 9 / 10"
    and stride: "0 \<le> video_sample_stride ds"
    and frames: "0 < min_sample_n_frames ds len"
    and clip: "clip_length ds len \<le> video_length ds len"
    and enough: "video_sample_n_frames ds \<le> video_length ds len"
  shows "\<exists>frame_idxs. batch_index ds len g = (Inr frame_idxs, next_rng g)
           \<and> list_all (\<lambda>i. 0 \<le> i \<and> i \<le> int len - 1) frame_idxs"
proof -
  define m where "m = min_sample_n_frames ds len"
  define vl where "vl = video_length ds len"
  define cl where "cl = clip_length ds len"
  define lo where "lo = int_trunc (video_length_drop_start ds * of_int vl)"
  have vl: "vl = (9 * int len) div 10"
    by (simp only: vl_def video_length_def finish trunc_nine_tenths)
  have "m \<le> video_sample_n_frames ds"
    by (simp add: m_def min_sample_n_frames_def)
  with frames enough have m1: "1 \<le> m" and vl1: "1 \<le> vl"
    by (simp_all add: m_def vl_def)
  from vl1 have "0 \<le> vl" by simp
  from trunc_one_tenth [OF this] have lo: "lo = vl div 10"
    by (simp only: lo_def start)
  from m1 stride have "0 \<le> (m - 1) * video_sample_stride ds" by simp
  with vl1 have cl1: "1 \<le> cl"
    by (simp add: cl_def clip_length_def m_def [symmetric] vl_def [symmetric])
  from clip have clvl: "cl \<le> vl" by (simp add: cl_def vl_def)
  have "lo \<le> max lo (vl - cl)" by simp
  from randint_range [OF this] obtain s
    where s: "randint g lo (max lo (vl - cl)) = Inr (s, next_rng g)"
      and s_lo: "lo \<le> s" and s_hi: "s \<le> max lo (vl - cl)" by blast
  from m1 linspace_int_returns [of m s "s + cl - 1"] obtain xs
    where xs: "linspace_int s (s + cl - 1) m = Inr xs" by auto
  have run: "batch_index ds len g = (Inr xs, next_rng g)"
    using frames clip enough s xs
    by (simp add: batch_index_def Let_def m_def [symmetric] vl_def [symmetric]
        cl_def [symmetric] lo_def [symmetric])
  have "0 \<le> x \<and> x \<le> int len - 1" if "x \<in> set xs" for x
  proof -
    from cl1 have "s \<le> s + cl - 1" by simp
    from linspace_int_bounds [OF this xs that] have "s \<le> x" and "x \<le> s + cl - 1"
      by simp_all
    moreover from vl1 lo have "0 \<le> lo" by simp
    moreover have "lo + vl \<le> int len" using lo vl by linarith
    moreover have "vl \<le> int len" using vl by linarith
    ultimately show ?thesis using s_lo s_hi clvl by linarith
  qed
  then have "list_all (\<lambda>i. 0 \<le> i \<and> i \<le> int len - 1) xs"
    by (simp add: list_all_iff)
  with run show ?thesis by blast
qed

text \<open>
  The theorem on the default data loader and a video of 100 frames: sixteen indices,
  four apart, from 10 to 70.
\<close>

theorem batch_index_in_range_witness:
  "fst (batch_index example_videos 100 ones)
     = Inr [10, 14, 18, 22, 26, 30, 34, 38, 42, 46, 50, 54, 58, 62, 66, 70]
   \<and> list_all (\<lambda>i. 0 \<le> i \<and> i \<le> int 100 - 1)
        [10, 14, 18, 22, 26, 30, 34, 38, 42, 46, 50, 54, 58, 62, 66, 70]"
proof -
  have run: "fst (batch_index example_videos 100 ones)
     = Inr [10, 14, 18, 22, 26, 30, 34, 38, 42, 46, 50, 54, 58, 62, 66, 70]"
    by code_simp
  have checks: "min_sample_n_frames example_videos 100 = 16"
    "video_length example_videos 100 = 90" "clip_length example_videos 100 = 61"
    by code_simp+
  have cfg: "video_length_drop_start example_videos = 1 / 10"
    "video_length_drop_end example_videos = 9 / 10"
    "video_sample_stride example_videos = 4" "video_sample_n_frames example_videos = 16"
    by (simp_all add: example_videos_def)
  from batch_index_in_range [of example_videos 100 ones] checks cfg
  obtain frame_idxs
    where "batch_index example_videos 100 ones = (Inr frame_idxs, next_rng ones)"
      and "list_all (\<lambda>i. 0 \<le> i \<and> i \<le> int 100 - 1) frame_idxs"
    by auto
  with run show ?thesis by simp
qed

section \<open>Tensors and the splice\<close>

lemma bind_err_Inr [simp]: "bind_err (Inr v) f = f v"
  by (simp add: bind_err_def)

lemma bind_err_Inl [simp]: "bind_err (Inl e) f = Inl e"
  by (simp add: bind_err_def)

lemma bind_err_eq_Inr:
  "bind_err r f = Inr y \<longleftrightarrow> (\<exists>v. r = Inr v \<and> f v = Inr y)"
  by (cases r) simp_all

lemma cat1_Inr:
  "cat1 a b = Inr t \<Longrightarrow> ncols t = ncols a + ncols b \<and> length (rows t) = length (rows a)
     \<and> length (rows b) = length (rows a)"
  by (auto simp: cat1_def split: if_splits)

lemma cat1_same_rows:
  "length (rows a) = length (rows b) \<Longrightarrow>
     cat1 a b = Inr (Tensor (ncols a + ncols b) (map2 (@) (rows a) (rows b)))"
  by (simp add: cat1_def)

lemma cat_dim1_pair: "cat_dim1 [a, b] = cat1 a b"
  by simp

lemma cat_dim1_triple: "cat_dim1 [a, b, c] = bind_err (cat1 b c) (cat1 a)"
  by simp

lemma ncols_add_scalar [simp]: "ncols (add_scalar t k) = ncols t"
  by (simp add: add_scalar_def)

lemma rows_add_scalar [simp]: "length (rows (add_scalar t k)) = length (rows t)"
  by (simp add: add_scalar_def)

lemma add_scalar_zero [simp]: "add_scalar t 0 = t"
  by (cases t) (simp add: add_scalar_def)

lemma add_scalar_add: "add_scalar (add_scalar t j) k = add_scalar t (j + k)"
  by (simp add: add_scalar_def add.assoc)

lemma ncols_col_slice_from:
  "ncols (col_slice t (Some i) None) = ncols t - slice_index (ncols t) i"
  by (simp add: col_slice_def Let_def)

lemma ncols_col_slice_butlast:
  "ncols (col_slice t None (Some (- 1))) = ncols t - 1"
  by (simp add: col_slice_def slice_index_def Let_def nat_diff_distrib')

lemma rows_col_slice [simp]: "length (rows (col_slice t a b)) = length (rows t)"
  by (simp add: col_slice_def Let_def)

lemma corrupt_shape:
  "corrupt n ns z = Inr a \<Longrightarrow> ncols a = ncols z \<and> length (rows a) = length (rows z)"
  by (auto simp: corrupt_def split: if_splits)

lemma a_indices_shape:
  "a_indices n ns z = Inr a \<Longrightarrow> ncols a = ncols z \<and> length (rows a) = length (rows z)"
  by (auto simp: a_indices_def dest: corrupt_shape split: if_splits)

lemma a_indices_clean:
  "\<not> (training n \<and> pkeep n < 1) \<Longrightarrow> a_indices n ns z = Inr z"
  by (auto simp: a_indices_def)

lemma ncols_shifted_z [simp]: "ncols (shifted_z n z) = ncols z"
  by (simp add: shifted_z_def)

lemma ncols_shifted_c [simp]: "ncols (shifted_c n c) = ncols c"
  by (simp add: shifted_c_def)

lemma ncols_sos_encode [simp]: "ncols (sos_encode s b) = 1"
  by (simp add: sos_encode_def)

text \<open>The splice, by the three cases: no start-of-sequence token or the condition
  dropped; the class first; the start-of-sequence token first.\<close>

lemma splice_cases:
  "splice n ns ci sos a =
     (if \<not> starts_with_sos n \<or> condition_dropped n ns
        then bind_err (cat_dim1 [ci, a]) (\<lambda>cz. Inr (cz, int (ncols ci) - 1))
      else if class_first n
        then bind_err (cat_dim1 [ci, sos, a]) (\<lambda>cz. Inr (cz, int (ncols ci)))
      else bind_err (cat_dim1 [sos, ci, a]) (\<lambda>cz. Inr (cz, int (ncols ci))))"
  by (simp add: splice_def condition_dropped_def split: option.splits)

lemma splice_ncols:
  assumes "splice n ns ci sos a = Inr (cz, prefix_len)" and "ncols sos = 1"
  shows "if \<not> starts_with_sos n \<or> condition_dropped n ns
         then ncols cz = ncols ci + ncols a \<and> prefix_len = int (ncols ci) - 1
         else ncols cz = ncols ci + 1 + ncols a \<and> prefix_len = int (ncols ci)"
  using assms
  by (auto simp: splice_cases bind_err_eq_Inr split: if_splits dest!: cat1_Inr)

section \<open>The spliced sequence of forward\<close>

text \<open>
  C1, as stated, while training with \<^verbatim>\<open>pkeep < 1\<close>: the module built for class labels
  with \<^verbatim>\<open>pkeep = 0.5\<close>, in training mode, on one row with \<^verbatim>\<open>c_indices = [2]\<close> and
  \<^verbatim>\<open>z_indices = [3, 4]\<close>, when the mask keeps the first visual token only and the
  replacement drawn is token 7. The sequence is \<open>[2, 13, 7]\<close>; the concatenation
  \<^verbatim>\<open>[c_indices, z_indices + cond_stage_vocab_size]\<close> of the claim is \<open>[2, 13, 14]\<close>.
\<close>

theorem cz_indices_corrupted_counterexample:
  "net_init example_args ''video'' ''label'' (1 / 2) 0 = Inr example_net
   \<and> cz_indices example_net keep_first 1 (Tensor 2 [[3, 4]]) (Tensor 1 [[2]])
       = Inr (Tensor 3 [[2, 13, 7]], 0)
   \<and> cat_dim1 [Tensor 1 [[2]],
                add_scalar (Tensor 2 [[3, 4]]) (cond_stage_vocab_size example_net)]
       = Inr (Tensor 3 [[2, 13, 14]])"
  by (simp add: net_init_def init_cond_stage_from_ckpt_def example_args_def
      cz_indices_def a_indices_def corrupt_def shifted_z_def shifted_c_def
      encode_to_c_def sos_encode_def splice_def example_net_def keep_first_def add_scalar_def
      cat1_def enumerate_eq_zip)

text \<open>
  C1, amended: the place of the visual tokens in the spliced sequence is taken by
  \<^verbatim>\<open>a_indices\<close>, which is the shifted \<^verbatim>\<open>z_indices\<close> itself unless the module is training
  with \<^verbatim>\<open>pkeep < 1\<close> (then some of its tokens are replaced, see C7). With that, the
  splice \<^verbatim>\<open>cz_indices\<close> (all of it but the last position goes to the transformer) and
  \<^verbatim>\<open>prefix_len\<close> are as the claim says. Without \<^verbatim>\<open>starts_with_sos\<close>:
  \<^verbatim>\<open>[c_indices, a_indices]\<close>, \<^verbatim>\<open>z_indices\<close> shifted by \<^verbatim>\<open>cond_stage_vocab_size\<close>,
  \<^verbatim>\<open>prefix_len = len(c_indices) - 1\<close>. With \<^verbatim>\<open>starts_with_sos\<close>, \<^verbatim>\<open>c_indices\<close> is shifted
  by 1 and \<^verbatim>\<open>z_indices\<close> by \<^verbatim>\<open>cond_stage_vocab_size + 1\<close>; if the condition is dropped
  the sequence is \<^verbatim>\<open>[c_indices, a_indices]\<close> with \<^verbatim>\<open>prefix_len = len(c_indices) - 1\<close>;
  otherwise it is \<^verbatim>\<open>[c_indices, sos, a_indices]\<close> under \<^verbatim>\<open>class_first\<close> and
  \<^verbatim>\<open>[sos, c_indices, a_indices]\<close> else, with \<^verbatim>\<open>prefix_len = len(c_indices)\<close>.
\<close>

theorem cz_indices_splice:
  assumes "a_indices n ns (shifted_z n z_tokens) = Inr a"
  shows "cz_indices n ns batch_rows z_tokens c_tokens =
           (if \<not> starts_with_sos n
              then bind_err (cat_dim1 [encode_to_c n c_tokens batch_rows, a])
                     (\<lambda>cz. Inr (cz, int (ncols (encode_to_c n c_tokens batch_rows)) - 1))
            else if condition_dropped n ns
              then bind_err (cat_dim1 [add_scalar (encode_to_c n c_tokens batch_rows) 1, a])
                     (\<lambda>cz. Inr (cz, int (ncols (encode_to_c n c_tokens batch_rows)) - 1))
            else if class_first n
              then bind_err (cat_dim1 [add_scalar (encode_to_c n c_tokens batch_rows) 1,
                                       sos_encode (sos_token n) batch_rows, a])
                     (\<lambda>cz. Inr (cz, int (ncols (encode_to_c n c_tokens batch_rows))))
            else bind_err (cat_dim1 [sos_encode (sos_token n) batch_rows,
                                     add_scalar (encode_to_c n c_tokens batch_rows) 1, a])
                   (\<lambda>cz. Inr (cz, int (ncols (encode_to_c n c_tokens batch_rows)))))
       \<and> shifted_z n z_tokens =
           add_scalar z_tokens (cond_stage_vocab_size n + (if starts_with_sos n then 1 else 0))
       \<and> (\<not> (training n \<and> pkeep n < 1) \<longrightarrow> a = shifted_z n z_tokens)"
proof -
  have shift: "shifted_z n z_tokens =
           add_scalar z_tokens (cond_stage_vocab_size n + (if starts_with_sos n then 1 else 0))"
    by (simp add: shifted_z_def add_scalar_add)
  have clean: "\<not> (training n \<and> pkeep n < 1) \<longrightarrow> a = shifted_z n z_tokens"
    using assms by (auto simp: a_indices_def)
  have "cz_indices n ns batch_rows z_tokens c_tokens =
      splice n ns (shifted_c n (encode_to_c n c_tokens batch_rows))
        (sos_encode (sos_token n) batch_rows) a"
    by (simp add: cz_indices_def assms)
  then have splice: "cz_indices n ns batch_rows z_tokens c_tokens =
           (if \<not> starts_with_sos n
              then bind_err (cat_dim1 [encode_to_c n c_tokens batch_rows, a])
                     (\<lambda>cz. Inr (cz, int (ncols (encode_to_c n c_tokens batch_rows)) - 1))
            else if condition_dropped n ns
              then bind_err (cat_dim1 [add_scalar (encode_to_c n c_tokens batch_rows) 1, a])
                     (\<lambda>cz. Inr (cz, int (ncols (encode_to_c n c_tokens batch_rows)) - 1))
            else if class_first n
              then bind_err (cat_dim1 [add_scalar (encode_to_c n c_tokens batch_rows) 1,
                                       sos_encode (sos_token n) batch_rows, a])
                     (\<lambda>cz. Inr (cz, int (ncols (encode_to_c n c_tokens batch_rows))))
            else bind_err (cat_dim1 [sos_encode (sos_token n) batch_rows,
                                     add_scalar (encode_to_c n c_tokens batch_rows) 1, a])
                   (\<lambda>cz. Inr (cz, int (ncols (encode_to_c n c_tokens batch_rows)))))"
    by (simp add: splice_cases shifted_c_def)
  from splice shift clean show ?thesis by blast
qed

text \<open>
  The theorem on \<open>example_sos_net\<close> (start-of-sequence token 0, ten classes), one row
  with \<^verbatim>\<open>c_indices = [2]\<close> and \<^verbatim>\<open>z_indices = [3, 4]\<close>: with the condition kept the
  sequence is \<open>[3, 0, 14, 15]\<close> and \<^verbatim>\<open>prefix_len = 1\<close>; with the condition dropped it is
  \<open>[3, 14, 15]\<close> and \<^verbatim>\<open>prefix_len = 0\<close>.
\<close>

theorem cz_indices_splice_witness:
  "net_init (example_args\<lparr>args_starts_with_sos := Some True, args_class_first := Some True,
                          args_p_drop_cond := Some (1 / 2)\<rparr>) ''video'' ''label'' 1 0
     = Inr example_sos_net
   \<and> a_indices example_sos_net (keep_first\<lparr>coin := 3 / 4\<rparr>)
        (shifted_z example_sos_net (Tensor 2 [[3, 4]])) = Inr (Tensor 2 [[14, 15]])
   \<and> cz_indices example_sos_net (keep_first\<lparr>coin := 3 / 4\<rparr>) 1 (Tensor 2 [[3, 4]]) (Tensor 1 [[2]])
       = Inr (Tensor 4 [[3, 0, 14, 15]], 1)
   \<and> cz_indices example_sos_net keep_first 1 (Tensor 2 [[3, 4]]) (Tensor 1 [[2]])
       = Inr (Tensor 3 [[3, 14, 15]], 0)"
proof -
  have init: "net_init (example_args\<lparr>args_starts_with_sos := Some True,
        args_class_first := Some True, args_p_drop_cond := Some (1 / 2)\<rparr>) ''video'' ''label'' 1 0
     = Inr example_sos_net"
    by (simp add: net_init_def init_cond_stage_from_ckpt_def example_args_def example_sos_net_def)
  have a: "a_indices example_sos_net ns (shifted_z example_sos_net (Tensor 2 [[3, 4]]))
      = Inr (Tensor 2 [[14, 15]])" for ns
    by (simp add: a_indices_def shifted_z_def example_sos_net_def add_scalar_def)
  have kept: "\<not> condition_dropped example_sos_net (keep_first\<lparr>coin := 3 / 4\<rparr>)"
    and dropped: "condition_dropped example_sos_net keep_first"
    by (simp_all add: condition_dropped_def example_sos_net_def keep_first_def)
  have flags: "starts_with_sos example_sos_net" "class_first example_sos_net"
    "sos_token example_sos_net = 0"
    "encode_to_c example_sos_net (Tensor 1 [[2]]) 1 = Tensor 1 [[2]]"
    by (simp_all add: example_sos_net_def encode_to_c_def)
  from cz_indices_splice [OF a, of "keep_first\<lparr>coin := 3 / 4\<rparr>" 1 "Tensor 1 [[2]]"] kept flags
  have r1: "cz_indices example_sos_net (keep_first\<lparr>coin := 3 / 4\<rparr>) 1 (Tensor 2 [[3, 4]]) (Tensor 1 [[2]])
       = Inr (Tensor 4 [[3, 0, 14, 15]], 1)"
    by (simp add: sos_encode_def add_scalar_def cat1_def)
  from cz_indices_splice [OF a, of keep_first 1 "Tensor 1 [[2]]"] dropped flags
  have r2: "cz_indices example_sos_net keep_first 1 (Tensor 2 [[3, 4]]) (Tensor 1 [[2]])
       = Inr (Tensor 3 [[3, 14, 15]], 0)"
    by (simp add: sos_encode_def add_scalar_def cat1_def)
  from init a r1 r2 show ?thesis by blast
qed

section \<open>The assertion of forward\<close>

lemma cz_indices_ncols:
  assumes "cz_indices n ns batch_rows z_tokens c_tokens = Inr (cz, prefix_len)"
  shows "if \<not> starts_with_sos n \<or> condition_dropped n ns
         then ncols cz = ncols (encode_to_c n c_tokens batch_rows) + ncols z_tokens
              \<and> prefix_len = int (ncols (encode_to_c n c_tokens batch_rows)) - 1
         else ncols cz = ncols (encode_to_c n c_tokens batch_rows) + 1 + ncols z_tokens
              \<and> prefix_len = int (ncols (encode_to_c n c_tokens batch_rows))"
proof -
  from assms obtain a where a: "a_indices n ns (shifted_z n z_tokens) = Inr a"
    and s: "splice n ns (shifted_c n (encode_to_c n c_tokens batch_rows))
              (sos_encode (sos_token n) batch_rows) a = Inr (cz, prefix_len)"
    by (auto simp: cz_indices_def bind_err_eq_Inr)
  from a_indices_shape [OF a] have "ncols a = ncols z_tokens" by simp
  with splice_ncols [OF s] show ?thesis by simp
qed

lemma cat1_error: "cat1 a b = Inl e \<Longrightarrow> e = RuntimeError"
  by (simp add: cat1_def split: if_splits)

lemma bind_err_eq_Inl:
  "bind_err r f = Inl e \<longleftrightarrow> r = Inl e \<or> (\<exists>v. r = Inr v \<and> f v = Inl e)"
  by (cases r) simp_all

lemma splice_error: "splice n ns ci sos a = Inl e \<Longrightarrow> e = RuntimeError"
  by (auto simp: splice_cases bind_err_eq_Inl dest: cat1_error split: if_splits)

lemma cz_indices_error:
  assumes "cz_indices n ns batch_rows z_tokens c_tokens = Inl e"
  shows "e = RuntimeError"
proof (cases "a_indices n ns (shifted_z n z_tokens)")
  case (Inl e')
  with assms have "e' = e" by (simp add: cz_indices_def)
  with Inl show ?thesis
    by (auto simp: a_indices_def corrupt_def split: if_splits)
next
  case (Inr a)
  with assms show ?thesis
    by (auto simp: cz_indices_def dest: splice_error)
qed

text \<open>
  C2, as stated, on a conditioning without tokens: the module built for text, one row
  with no text token and \<^verbatim>\<open>z_indices = [5, 6]\<close>, and a transformer that returns one
  output for each position. \<^verbatim>\<open>prefix_len\<close> is \<open>-1\<close>, the slice
  \<^verbatim>\<open>logits[:, -1:]\<close> keeps one position, the target has two, and the assertion fails.
\<close>

theorem forward_empty_condition_counterexample:
  "net_init example_args ''video'' ''text'' 1 0 = Inr example_text_net
   \<and> forward example_text_net (\<lambda>t. t) keep_first 1 (Tensor 2 [[5, 6]]) (Tensor 0 [[]])
       = Inl AssertionError"
  by (simp add: net_init_def init_cond_stage_from_ckpt_def example_args_def
      forward_def cz_indices_def a_indices_def corrupt_def shifted_z_def shifted_c_def
      encode_to_c_def sos_encode_def splice_def example_text_net_def keep_first_def add_scalar_def
      cat1_def enumerate_eq_zip col_slice_def slice_index_def Let_def)

text \<open>
  C2, amended with the condition that the conditioning has a token: when the
  transformer returns logits for every position it is given, and \<^verbatim>\<open>c_indices\<close> has at
  least one column (or the module starts with the start-of-sequence token and the
  condition is not dropped), \<^verbatim>\<open>forward\<close> never fails the assertion
  \<^verbatim>\<open>logits.shape[1] == target.shape[1]\<close>, in every combination of
  \<^verbatim>\<open>starts_with_sos\<close>, \<^verbatim>\<open>class_first\<close> and dropping; and whenever the sequence could be
  spliced, \<^verbatim>\<open>forward\<close> returns logits with as many positions as the target has.
\<close>

theorem forward_assert_holds:
  assumes gpt: "shape_preserving gpt"
    and cond: "1 \<le> ncols (encode_to_c n c_tokens batch_rows)
               \<or> (starts_with_sos n \<and> \<not> condition_dropped n ns)"
  shows "forward n gpt ns batch_rows z_tokens c_tokens \<noteq> Inl AssertionError
    \<and> (cz_indices n ns batch_rows z_tokens c_tokens = Inr (cz, prefix_len)
        \<longrightarrow> (\<exists>logits. forward n gpt ns batch_rows z_tokens c_tokens
                    = Inr (logits, shifted_z n z_tokens)
               \<and> ncols logits = ncols (shifted_z n z_tokens)))"
proof -
  let ?lc = "ncols (encode_to_c n c_tokens batch_rows)"
  have returns: "\<exists>logits. forward n gpt ns batch_rows z_tokens c_tokens
                    = Inr (logits, shifted_z n z_tokens)
               \<and> ncols logits = ncols (shifted_z n z_tokens)"
    if cz: "cz_indices n ns batch_rows z_tokens c_tokens = Inr (cz', p)" for cz' p
  proof -
    let ?logits = "col_slice (gpt (col_slice cz' None (Some (- 1)))) (Some p) None"
    from gpt have fed: "ncols (gpt (col_slice cz' None (Some (- 1)))) = ncols cz' - 1"
      by (simp add: shape_preserving_def ncols_col_slice_butlast)
    have "ncols ?logits = ncols z_tokens"
    proof (cases "\<not> starts_with_sos n \<or> condition_dropped n ns")
      case True
      with cz_indices_ncols [OF cz]
      have "ncols cz' = ?lc + ncols z_tokens" and "p = int ?lc - 1" by simp_all
      moreover from True cond have "1 \<le> ?lc" by auto
      ultimately show ?thesis
        by (simp add: ncols_col_slice_from fed slice_index_def)
    next
      case False
      with cz_indices_ncols [OF cz]
      have "ncols cz' = ?lc + 1 + ncols z_tokens" and "p = int ?lc" by simp_all
      then show ?thesis
        by (simp add: ncols_col_slice_from fed slice_index_def)
    qed
    then show ?thesis
      by (simp add: forward_def cz Let_def)
  qed
  have "forward n gpt ns batch_rows z_tokens c_tokens \<noteq> Inl AssertionError"
  proof (cases "cz_indices n ns batch_rows z_tokens c_tokens")
    case (Inl e)
    from cz_indices_error [OF this] Inl show ?thesis
      by (simp add: forward_def)
  next
    case (Inr r)
    obtain cz' p where "r = (cz', p)" by (cases r)
    with Inr returns show ?thesis by fastforce
  qed
  with returns show ?thesis by blast
qed

text \<open>
  The theorem on two batches: \<open>example_net\<close> with one class token, and
  \<open>example_sos_net\<close> with the condition kept and no conditioning token at all.
\<close>

theorem forward_assert_holds_witness:
  "forward example_net (\<lambda>t. t) keep_first 1 (Tensor 2 [[3, 4]]) (Tensor 1 [[2]])
     = Inr (Tensor 2 [[2, 13]], Tensor 2 [[13, 14]])
   \<and> forward example_sos_net (\<lambda>t. t) (keep_first\<lparr>coin := 3 / 4\<rparr>) 1 (Tensor 2 [[3, 4]]) (Tensor 0 [[]])
     = Inr (Tensor 2 [[0, 14]], Tensor 2 [[14, 15]])"
proof -
  have gpt: "shape_preserving (\<lambda>t. t)"
    by (simp add: shape_preserving_def)
  have cz1: "cz_indices example_net keep_first 1 (Tensor 2 [[3, 4]]) (Tensor 1 [[2]])
       = Inr (Tensor 3 [[2, 13, 7]], 0)"
    by (simp add: cz_indices_def a_indices_def corrupt_def shifted_z_def shifted_c_def
      encode_to_c_def sos_encode_def splice_def example_net_def keep_first_def add_scalar_def
      cat1_def enumerate_eq_zip)
  have c1: "1 \<le> ncols (encode_to_c example_net (Tensor 1 [[2]]) 1)
      \<or> (starts_with_sos example_net \<and> \<not> condition_dropped example_net keep_first)"
    by (simp add: encode_to_c_def example_net_def)
  have t1: "shifted_z example_net (Tensor 2 [[3, 4]]) = Tensor 2 [[13, 14]]"
    by (simp add: shifted_z_def example_net_def add_scalar_def)
  from forward_assert_holds [OF gpt c1, THEN conjunct2, THEN mp, OF cz1] obtain logits
    where f1: "forward example_net (\<lambda>t. t) keep_first 1 (Tensor 2 [[3, 4]]) (Tensor 1 [[2]])
      = Inr (logits, Tensor 2 [[13, 14]])"
    unfolding t1 by blast
  have "forward example_net (\<lambda>t. t) keep_first 1 (Tensor 2 [[3, 4]]) (Tensor 1 [[2]])
      = Inr (col_slice (col_slice (Tensor 3 [[2, 13, 7]]) None (Some (- 1))) (Some 0) None,
             Tensor 2 [[13, 14]])"
    using f1 unfolding forward_def cz1 by (simp add: Let_def t1 split: if_splits)
  then have r1: "forward example_net (\<lambda>t. t) keep_first 1 (Tensor 2 [[3, 4]]) (Tensor 1 [[2]])
     = Inr (Tensor 2 [[2, 13]], Tensor 2 [[13, 14]])"
    by (simp add: col_slice_def slice_index_def)
  have cz2: "cz_indices example_sos_net (keep_first\<lparr>coin := 3 / 4\<rparr>) 1 (Tensor 2 [[3, 4]]) (Tensor 0 [[]])
       = Inr (Tensor 3 [[0, 14, 15]], 0)"
    by (simp add: cz_indices_def a_indices_def shifted_z_def shifted_c_def
      encode_to_c_def sos_encode_def splice_def example_sos_net_def keep_first_def add_scalar_def
      cat1_def)
  have c2: "1 \<le> ncols (encode_to_c example_sos_net (Tensor 0 [[]]) 1)
      \<or> (starts_with_sos example_sos_net
          \<and> \<not> condition_dropped example_sos_net (keep_first\<lparr>coin := 3 / 4\<rparr>))"
    by (simp add: condition_dropped_def example_sos_net_def keep_first_def)
  have t2: "shifted_z example_sos_net (Tensor 2 [[3, 4]]) = Tensor 2 [[14, 15]]"
    by (simp add: shifted_z_def example_sos_net_def add_scalar_def)
  from forward_assert_holds [OF gpt c2, THEN conjunct2, THEN mp, OF cz2] obtain logits2
    where f2: "forward example_sos_net (\<lambda>t. t) (keep_first\<lparr>coin := 3 / 4\<rparr>) 1 (Tensor 2 [[3, 4]])
        (Tensor 0 [[]]) = Inr (logits2, Tensor 2 [[14, 15]])"
    unfolding t2 by blast
  have "forward example_sos_net (\<lambda>t. t) (keep_first\<lparr>coin := 3 / 4\<rparr>) 1 (Tensor 2 [[3, 4]])
        (Tensor 0 [[]])
      = Inr (col_slice (col_slice (Tensor 3 [[0, 14, 15]]) None (Some (- 1))) (Some 0) None,
             Tensor 2 [[14, 15]])"
    using f2 unfolding forward_def cz2 by (simp add: Let_def t2 split: if_splits)
  then have r2: "forward example_sos_net (\<lambda>t. t) (keep_first\<lparr>coin := 3 / 4\<rparr>) 1 (Tensor 2 [[3, 4]])
        (Tensor 0 [[]]) = Inr (Tensor 2 [[0, 14]], Tensor 2 [[14, 15]])"
    by (simp add: col_slice_def slice_index_def)
  from r1 r2 show ?thesis by simp
qed

section \<open>The target of forward\<close>

lemma forward_target:
  "forward n gpt ns batch_rows z_tokens c_tokens = Inr (logits, target)
     \<Longrightarrow> target = shifted_z n z_tokens"
  by (auto simp: forward_def bind_err_eq_Inr Let_def split: if_splits prod.splits)

lemma corrupt_rows:
  "corrupt n ns z = Inr a \<Longrightarrow>
     a = Tensor (ncols z)
           (map (\<lambda>(i, row).
                   map (\<lambda>(j, v). if keep ns i j then v
                                  else int (replacement ns i j) mod vocab_size n)
                     (enumerate 0 row))
              (enumerate 0 (rows z)))"
  by (auto simp: corrupt_def split: if_splits)

text \<open>
  C7: whenever \<^verbatim>\<open>forward\<close> returns, its target is the shifted \<^verbatim>\<open>z_indices\<close>, and its
  logits are what the transformer returns on the spliced sequence built from
  \<^verbatim>\<open>a_indices\<close> (all of it but the last position), cut at \<^verbatim>\<open>prefix_len\<close>. While
  training with \<^verbatim>\<open>pkeep < 1\<close>, \<^verbatim>\<open>a_indices\<close> holds at each position the token of the
  shifted \<^verbatim>\<open>z_indices\<close> where the mask is 1 and the replacement where it is 0, and a
  replacement is a token of the transformer's vocabulary, \<open>[0, vocab_size)\<close>; otherwise
  \<^verbatim>\<open>a_indices\<close> is the shifted \<^verbatim>\<open>z_indices\<close>. The target does not depend on what is
  drawn: two calls that differ in the mask, the replacements and the coin return the
  same target. (That the mask is 1 with probability \<^verbatim>\<open>pkeep\<close> at each position
  independently, and the replacement uniform, is the contract of \<^verbatim>\<open>torch.bernoulli\<close>
  and \<^verbatim>\<open>torch.randint_like\<close>; the theorem is about every outcome of the two.)
\<close>

theorem forward_target_uncorrupted:
  "(forward n gpt ns batch_rows z_tokens c_tokens = Inr (logits, target)
      \<longrightarrow> target = shifted_z n z_tokens
        \<and> (\<exists>a cz prefix_len.
              a_indices n ns (shifted_z n z_tokens) = Inr a
            \<and> splice n ns (shifted_c n (encode_to_c n c_tokens batch_rows))
                  (sos_encode (sos_token n) batch_rows) a = Inr (cz, prefix_len)
            \<and> logits = col_slice (gpt (col_slice cz None (Some (- 1)))) (Some prefix_len) None
            \<and> (if training n \<and> pkeep n < 1
                then a = Tensor (ncols z_tokens)
                          (map (\<lambda>(i, row).
                                  map (\<lambda>(j, v). if keep ns i j then v
                                                 else int (replacement ns i j) mod vocab_size n)
                                    (enumerate 0 row))
                             (enumerate 0 (rows (shifted_z n z_tokens))))
                     \<and> 0 < vocab_size n
                else a = shifted_z n z_tokens)))
   \<and> (forward n gpt ns batch_rows z_tokens c_tokens = Inr (logits, target)
        \<and> forward n gpt ns' batch_rows z_tokens c_tokens = Inr (logits', target')
      \<longrightarrow> target' = target)
   \<and> (0 < vocab_size n
      \<longrightarrow> 0 \<le> int r mod vocab_size n \<and> int r mod vocab_size n < vocab_size n)"
proof -
  have t1: "forward n gpt ns batch_rows z_tokens c_tokens = Inr (logits, target)
      \<longrightarrow> target = shifted_z n z_tokens
        \<and> (\<exists>a cz prefix_len.
              a_indices n ns (shifted_z n z_tokens) = Inr a
            \<and> splice n ns (shifted_c n (encode_to_c n c_tokens batch_rows))
                  (sos_encode (sos_token n) batch_rows) a = Inr (cz, prefix_len)
            \<and> logits = col_slice (gpt (col_slice cz None (Some (- 1)))) (Some prefix_len) None
            \<and> (if training n \<and> pkeep n < 1
                then a = Tensor (ncols z_tokens)
                          (map (\<lambda>(i, row).
                                  map (\<lambda>(j, v). if keep ns i j then v
                                                 else int (replacement ns i j) mod vocab_size n)
                                    (enumerate 0 row))
                             (enumerate 0 (rows (shifted_z n z_tokens))))
                     \<and> 0 < vocab_size n
                else a = shifted_z n z_tokens))"
  proof
    assume ret: "forward n gpt ns batch_rows z_tokens c_tokens = Inr (logits, target)"
    then obtain cz p where cz: "cz_indices n ns batch_rows z_tokens c_tokens = Inr (cz, p)"
      and out: "(let tg = shifted_z n z_tokens;
                     lg = col_slice (gpt (col_slice cz None (Some (- 1)))) (Some p) None
                 in if ncols lg = ncols tg then Inr (lg, tg) else Inl AssertionError)
                = Inr (logits, target)"
      by (auto simp: forward_def bind_err_eq_Inr)
    from out have tg: "target = shifted_z n z_tokens"
      and lg: "logits = col_slice (gpt (col_slice cz None (Some (- 1)))) (Some p) None"
      by (auto simp: Let_def split: if_splits)
    from cz obtain a where a: "a_indices n ns (shifted_z n z_tokens) = Inr a"
      and s: "splice n ns (shifted_c n (encode_to_c n c_tokens batch_rows))
                (sos_encode (sos_token n) batch_rows) a = Inr (cz, p)"
      by (auto simp: cz_indices_def bind_err_eq_Inr)
    have mix: "if training n \<and> pkeep n < 1
                then a = Tensor (ncols z_tokens)
                          (map (\<lambda>(i, row).
                                  map (\<lambda>(j, v). if keep ns i j then v
                                                 else int (replacement ns i j) mod vocab_size n)
                                    (enumerate 0 row))
                             (enumerate 0 (rows (shifted_z n z_tokens))))
                     \<and> 0 < vocab_size n
                else a = shifted_z n z_tokens"
    proof (cases "training n \<and> pkeep n < 1")
      case True
      with a have c: "corrupt n ns (shifted_z n z_tokens) = Inr a"
        by (auto simp: a_indices_def)
      then have "0 < vocab_size n" by (auto simp: corrupt_def split: if_splits)
      with corrupt_rows [OF c] True show ?thesis by simp
    next
      case False
      with a show ?thesis by (auto simp: a_indices_def)
    qed
    from tg a s lg mix
    show "target = shifted_z n z_tokens
        \<and> (\<exists>a cz prefix_len.
              a_indices n ns (shifted_z n z_tokens) = Inr a
            \<and> splice n ns (shifted_c n (encode_to_c n c_tokens batch_rows))
                  (sos_encode (sos_token n) batch_rows) a = Inr (cz, prefix_len)
            \<and> logits = col_slice (gpt (col_slice cz None (Some (- 1)))) (Some prefix_len) None
            \<and> (if training n \<and> pkeep n < 1
                then a = Tensor (ncols z_tokens)
                          (map (\<lambda>(i, row).
                                  map (\<lambda>(j, v). if keep ns i j then v
                                                 else int (replacement ns i j) mod vocab_size n)
                                    (enumerate 0 row))
                             (enumerate 0 (rows (shifted_z n z_tokens))))
                     \<and> 0 < vocab_size n
                else a = shifted_z n z_tokens))"
      by blast
  qed
  have t2: "forward n gpt ns batch_rows z_tokens c_tokens = Inr (logits, target)
        \<and> forward n gpt ns' batch_rows z_tokens c_tokens = Inr (logits', target')
      \<longrightarrow> target' = target"
    by (auto dest: forward_target)
  have t3: "0 < vocab_size n
      \<longrightarrow> 0 \<le> int r mod vocab_size n \<and> int r mod vocab_size n < vocab_size n"
    by simp
  from t1 t2 t3 show ?thesis by blast
qed

text \<open>
  The theorem on \<open>example_net\<close>, which trains with \<^verbatim>\<open>pkeep = 0.5\<close>, one row with
  \<^verbatim>\<open>c_indices = [2]\<close> and \<^verbatim>\<open>z_indices = [3, 4, 5]\<close>, a mask that keeps the first visual
  token and a transformer that returns its input. \<^verbatim>\<open>a_indices\<close> is \<open>[13, 7, 7]\<close>, the
  transformer is given \<open>[2, 13, 7]\<close>, with a replaced token in it, and the target is
  \<open>[13, 14, 15]\<close>.
\<close>

theorem forward_target_uncorrupted_witness:
  "forward example_net (\<lambda>t. t) keep_first 1 (Tensor 3 [[3, 4, 5]]) (Tensor 1 [[2]])
     = Inr (Tensor 3 [[2, 13, 7]], Tensor 3 [[13, 14, 15]])
   \<and> a_indices example_net keep_first (shifted_z example_net (Tensor 3 [[3, 4, 5]]))
       = Inr (Tensor 3 [[13, 7, 7]])
   \<and> splice example_net keep_first
        (shifted_c example_net (encode_to_c example_net (Tensor 1 [[2]]) 1))
        (sos_encode (sos_token example_net) 1) (Tensor 3 [[13, 7, 7]])
       = Inr (Tensor 4 [[2, 13, 7, 7]], 0)
   \<and> col_slice (col_slice (Tensor 4 [[2, 13, 7, 7 :: int]]) None (Some (- 1))) (Some 0) None
       = Tensor 3 [[2, 13, 7]]
   \<and> shifted_z example_net (Tensor 3 [[3, 4, 5]]) = Tensor 3 [[13, 14, 15]]"
proof -
  have run: "forward example_net (\<lambda>t. t) keep_first 1 (Tensor 3 [[3, 4, 5]]) (Tensor 1 [[2]])
     = Inr (Tensor 3 [[2, 13, 7]], Tensor 3 [[13, 14, 15]])"
    by (simp add: forward_def cz_indices_def a_indices_def corrupt_def shifted_z_def shifted_c_def
      encode_to_c_def sos_encode_def splice_def example_net_def keep_first_def add_scalar_def
      cat1_def enumerate_eq_zip col_slice_def slice_index_def Let_def)
  have a: "a_indices example_net keep_first (shifted_z example_net (Tensor 3 [[3, 4, 5]]))
       = Inr (Tensor 3 [[13, 7, 7]])"
    by (simp add: a_indices_def corrupt_def shifted_z_def example_net_def keep_first_def
        add_scalar_def enumerate_eq_zip)
  have s: "splice example_net keep_first
        (shifted_c example_net (encode_to_c example_net (Tensor 1 [[2]]) 1))
        (sos_encode (sos_token example_net) 1) (Tensor 3 [[13, 7, 7]])
       = Inr (Tensor 4 [[2, 13, 7, 7]], 0)"
    by (simp add: splice_def shifted_c_def encode_to_c_def sos_encode_def example_net_def cat1_def)
  have sl: "col_slice (col_slice (Tensor 4 [[2, 13, 7, 7 :: int]]) None (Some (- 1))) (Some 0) None
       = Tensor 3 [[2, 13, 7]]"
    by (simp add: col_slice_def slice_index_def)
  from forward_target_uncorrupted [where n = example_net and gpt = "\<lambda>t. t"
      and ns = keep_first and batch_rows = 1 and z_tokens = "Tensor 3 [[3, 4, 5]]"
      and c_tokens = "Tensor 1 [[2]]" and logits = "Tensor 3 [[2, 13, 7]]"
      and target = "Tensor 3 [[13, 14, 15]]", THEN conjunct1, THEN mp, OF run, THEN conjunct1]
  have "shifted_z example_net (Tensor 3 [[3, 4, 5]]) = Tensor 3 [[13, 14, 15]]" by simp
  with run a s sl show ?thesis by simp
qed

section \<open>The unconditional model\<close>

text \<open>
  C8, as stated, with \<^verbatim>\<open>cond_stage_key = 'text'\<close>: \<^verbatim>\<open>init_cond_stage_from_ckpt\<close> tests the
  key before \<^verbatim>\<open>be_unconditional\<close>, so with \<^verbatim>\<open>args.unconditional\<close> true the conditioning
  stage is the text stage with 49408 tokens, and \<^verbatim>\<open>forward\<close> splices the text tokens
  with the shifted visual tokens: \<open>[7, 8, 49411]\<close> with \<^verbatim>\<open>prefix_len = 1\<close>, not
  \<^verbatim>\<open>[sos_token, 3]\<close> with \<^verbatim>\<open>prefix_len = 0\<close>.
\<close>

theorem unconditional_text_counterexample:
  "unconditional (example_args\<lparr>unconditional := True\<rparr>)
   \<and> net_init (example_args\<lparr>unconditional := True\<rparr>) ''video'' ''text'' 1 0
       = Inr (example_text_net\<lparr>be_unconditional := True\<rparr>)
   \<and> cond_stage_model (example_text_net\<lparr>be_unconditional := True\<rparr>) = Identity
   \<and> cond_stage_vocab_size (example_text_net\<lparr>be_unconditional := True\<rparr>) = 49408
   \<and> cz_indices (example_text_net\<lparr>be_unconditional := True\<rparr>) keep_first 1
        (Tensor 1 [[3]]) (Tensor 2 [[7, 8]])
       = Inr (Tensor 3 [[7, 8, 49411]], 1)"
  by (simp add: net_init_def init_cond_stage_from_ckpt_def example_args_def
      cz_indices_def a_indices_def shifted_z_def shifted_c_def
      encode_to_c_def sos_encode_def splice_def example_text_net_def keep_first_def add_scalar_def
      cat1_def)

text \<open>
  C8, amended: when \<^verbatim>\<open>args.unconditional\<close> is true and \<^verbatim>\<open>cond_stage_key\<close> is neither
  \<^verbatim>\<open>'stft'\<close> nor \<^verbatim>\<open>'text'\<close> (it is \<^verbatim>\<open>'label'\<close> by default), the module is built with
  the conditioning stage \<^verbatim>\<open>SOSProvider(sos_token)\<close>, \<^verbatim>\<open>cond_stage_vocab_size = 0\<close> and
  \<^verbatim>\<open>starts_with_sos = False\<close>, whatever \<^verbatim>\<open>args.starts_with_sos\<close> is; \<^verbatim>\<open>z_indices\<close> is
  not shifted; and in training mode or not, \<^verbatim>\<open>forward\<close> splices
  \<^verbatim>\<open>[sos_token, a_indices]\<close> with \<^verbatim>\<open>prefix_len = 0\<close>, where \<^verbatim>\<open>a_indices\<close> is
  \<^verbatim>\<open>z_indices\<close> itself unless the module trains with \<^verbatim>\<open>pkeep < 1\<close>.
\<close>

theorem unconditional_splice:
  assumes uncond: "unconditional a" and key: "key \<noteq> ''stft''" "key \<noteq> ''text''"
  shows "\<exists>n. net_init a first_stage_key key kp sos = Inr n
           \<and> cond_stage_model n = SOSProvider sos
           \<and> cond_stage_vocab_size n = 0
           \<and> \<not> starts_with_sos n
           \<and> shifted_z (n\<lparr>training := tr\<rparr>) z_tokens = z_tokens
           \<and> cz_indices (n\<lparr>training := tr\<rparr>) ns batch_rows z_tokens c_tokens =
                bind_err (a_indices (n\<lparr>training := tr\<rparr>) ns z_tokens)
                  (\<lambda>a'. bind_err (cat_dim1 [Tensor 1 (replicate batch_rows [sos]), a'])
                          (\<lambda>cz. Inr (cz, 0)))
           \<and> (\<not> (tr \<and> kp < 1) \<longrightarrow>
                a_indices (n\<lparr>training := tr\<rparr>) ns z_tokens = Inr z_tokens)"
proof -
  from uncond key
  have init: "init_cond_stage_from_ckpt a key first_stage_key sos
      = Some (SOSProvider sos, 0, first_stage_key)"
    by (simp add: init_cond_stage_from_ckpt_def)
  then obtain n where n: "net_init a first_stage_key key kp sos = Inr n"
    and model: "cond_stage_model n = SOSProvider sos"
    and vocab: "cond_stage_vocab_size n = 0"
    and nosos: "\<not> starts_with_sos n"
    and keep: "pkeep n = kp"
    using uncond by (simp add: net_init_def Let_def)
  let ?n = "n\<lparr>training := tr\<rparr>"
  have z: "shifted_z ?n z_tokens = z_tokens"
    using vocab nosos by (simp add: shifted_z_def)
  have c: "shifted_c ?n (encode_to_c ?n c_tokens batch_rows) = Tensor 1 (replicate batch_rows [sos])"
    using model nosos by (simp add: shifted_c_def encode_to_c_def sos_encode_def)
  have cz: "cz_indices ?n ns batch_rows z_tokens c_tokens =
                bind_err (a_indices ?n ns z_tokens)
                  (\<lambda>a'. bind_err (cat_dim1 [Tensor 1 (replicate batch_rows [sos]), a'])
                          (\<lambda>cz. Inr (cz, 0)))"
    using nosos by (simp add: cz_indices_def z c splice_def)
  have clean: "\<not> (tr \<and> kp < 1) \<longrightarrow> a_indices ?n ns z_tokens = Inr z_tokens"
    using keep by (auto simp: a_indices_def)
  from n model vocab nosos z cz clean show ?thesis by blast
qed

text \<open>
  The theorem on the arguments of \<open>example_unconditional_net\<close> and a batch of two
  rows: each row is the start-of-sequence token 9 followed by its visual tokens.
\<close>

theorem unconditional_splice_witness:
  "net_init (example_args\<lparr>unconditional := True\<rparr>) ''video'' ''label'' 1 9
     = Inr example_unconditional_net
   \<and> cz_indices example_unconditional_net keep_first 2 (Tensor 2 [[3, 4], [5, 6]]) (Tensor 0 [])
       = Inr (Tensor 3 [[9, 3, 4], [9, 5, 6]], 0)"
proof -
  have init: "net_init (example_args\<lparr>unconditional := True\<rparr>) ''video'' ''label'' 1 9
     = Inr example_unconditional_net"
    by (simp add: net_init_def init_cond_stage_from_ckpt_def example_args_def
        example_unconditional_net_def)
  have u: "unconditional (example_args\<lparr>unconditional := True\<rparr>)" by simp
  have k: "''label'' \<noteq> ''stft''" "''label'' \<noteq> ''text''" by simp_all
  from unconditional_splice [OF u k, of "''video''" 1 9 True "Tensor 2 [[3, 4], [5, 6]]"
      keep_first 2 "Tensor 0 []"]
  obtain n where n: "net_init (example_args\<lparr>unconditional := True\<rparr>) ''video'' ''label'' 1 9 = Inr n"
    and cz: "cz_indices (n\<lparr>training := True\<rparr>) keep_first 2 (Tensor 2 [[3, 4], [5, 6]]) (Tensor 0 []) =
                bind_err (a_indices (n\<lparr>training := True\<rparr>) keep_first (Tensor 2 [[3, 4], [5, 6]]))
                  (\<lambda>a'. bind_err (cat_dim1 [Tensor 1 (replicate 2 [9]), a'])
                          (\<lambda>cz. Inr (cz, 0)))"
    and a: "a_indices (n\<lparr>training := True\<rparr>) keep_first (Tensor 2 [[3, 4], [5, 6]])
              = Inr (Tensor 2 [[3, 4], [5, 6]])"
    by auto
  from n init have "n = example_unconditional_net" by simp
  moreover have "example_unconditional_net\<lparr>training := True\<rparr> = example_unconditional_net"
    by (simp add: example_unconditional_net_def)
  ultimately have "cz_indices example_unconditional_net keep_first 2 (Tensor 2 [[3, 4], [5, 6]])
      (Tensor 0 []) = Inr (Tensor 3 [[9, 3, 4], [9, 5, 6]], 0)"
    using cz a by (simp add: cat1_def numeral_2_eq_2)
  with init show ?thesis by simp
qed

section \<open>The positions that sample returns\<close>

lemma bind_err_Inr_right [simp]: "bind_err r Inr = r"
  by (cases r) simp_all

lemma bind_err_assoc:
  "bind_err (bind_err r f) g = bind_err r (\<lambda>v. bind_err (f v) g)"
  by (cases r) simp_all

lemma sample_loop_snoc:
  "sample_loop n gpt pick (Suc todo) k x
     = bind_err (sample_loop n gpt pick todo k x) (sample_step n gpt pick (k + todo))"
proof (induction todo arbitrary: k x)
  case 0
  have "sample_loop n gpt pick 0 (Suc k) = Inr"
    by (rule ext) simp
  then show ?case by simp
next
  case (Suc todo)
  have unroll: "sample_loop n gpt pick (Suc todo) (Suc k)
      = (\<lambda>y. bind_err (sample_loop n gpt pick todo (Suc k) y)
              (sample_step n gpt pick (Suc k + todo)))"
    by (rule ext) (rule Suc.IH)
  have "sample_loop n gpt pick (Suc (Suc todo)) k x
      = bind_err (sample_step n gpt pick k x) (sample_loop n gpt pick (Suc todo) (Suc k))"
    by simp
  also have "\<dots> = bind_err (sample_step n gpt pick k x)
      (\<lambda>y. bind_err (sample_loop n gpt pick todo (Suc k) y)
              (sample_step n gpt pick (Suc k + todo)))"
    by (simp only: unroll)
  also have "\<dots> = bind_err (sample_loop n gpt pick (Suc todo) k x)
      (sample_step n gpt pick (k + Suc todo))"
    by (simp add: bind_err_assoc)
  finally show ?case .
qed

lemma map2_append_assoc:
  "map2 (@) (map2 (@) xs ys) zs = map2 (@) xs (map2 (@) ys zs)"
proof (induction xs arbitrary: ys zs)
  case Nil
  show ?case by simp
next
  case (Cons x xs)
  show ?case by (cases ys; cases zs) (simp_all add: Cons.IH)
qed

lemma map2_append_nil:
  "map2 (@) xs (replicate (length xs) []) = xs"
  by (induction xs) simp_all

lemma sample_step_appends:
  assumes gpt: "shape_preserving gpt"
    and fits: "int (ncols x) \<le> net_block_size n" and nonempty: "1 \<le> ncols x"
  shows "sample_step n gpt pick k x
      = Inr (Tensor (ncols x + 1)
               (map2 (@) (rows x) (map (\<lambda>l. [pick k l]) (map last (rows (gpt x))))))"
    and "sample_step n gpt pick k x
      = cat_dim1 [x, Tensor 1 (map (\<lambda>l. [pick k l]) (map last (rows (gpt x))))]"
proof -
  from gpt nonempty have "ncols (gpt x) \<noteq> 0" and len: "length (rows (gpt x)) = length (rows x)"
    by (simp_all add: shape_preserving_def)
  then have ll: "last_logits (gpt x) = Inr (map last (rows (gpt x)))"
    by (simp add: last_logits_def)
  with fits len show "sample_step n gpt pick k x
      = Inr (Tensor (ncols x + 1)
               (map2 (@) (rows x) (map (\<lambda>l. [pick k l]) (map last (rows (gpt x))))))"
    by (simp add: sample_step_def cat1_def)
  from fits ll show "sample_step n gpt pick k x
      = cat_dim1 [x, Tensor 1 (map (\<lambda>l. [pick k l]) (map last (rows (gpt x))))]"
    by (simp add: sample_step_def)
qed

lemma sample_loop_appends:
  assumes gpt: "shape_preserving gpt"
  shows "int (ncols x) + int todo - 1 \<le> net_block_size n \<Longrightarrow> 1 \<le> ncols x \<Longrightarrow>
         \<exists>news. length news = length (rows x) \<and> list_all (\<lambda>t. length t = todo) news
           \<and> sample_loop n gpt pick todo k x
               = Inr (Tensor (ncols x + todo) (map2 (@) (rows x) news))"
proof (induction todo arbitrary: k x)
  case 0
  have "x = Tensor (ncols x + 0) (map2 (@) (rows x) (replicate (length (rows x)) []))"
    by (cases x) (simp add: map2_append_nil)
  then have "sample_loop n gpt pick 0 k x
      = Inr (Tensor (ncols x + 0) (map2 (@) (rows x) (replicate (length (rows x)) [])))"
    by simp
  then show ?case
    by (intro exI [of _ "replicate (length (rows x)) []"]) (simp add: list_all_iff)
next
  case (Suc todo)
  let ?col = "map (\<lambda>l. [pick k l]) (map last (rows (gpt x)))"
  let ?x1 = "Tensor (ncols x + 1) (map2 (@) (rows x) ?col)"
  from gpt have len: "length ?col = length (rows x)"
    by (simp add: shape_preserving_def)
  from Suc.prems have "int (ncols x) \<le> net_block_size n" by simp
  from sample_step_appends(1) [OF gpt this Suc.prems(2)]
  have step: "sample_step n gpt pick k x = Inr ?x1" .
  from Suc.prems have "int (ncols ?x1) + int todo - 1 \<le> net_block_size n" and "1 \<le> ncols ?x1"
    by simp_all
  from Suc.IH [OF this, of "Suc k"] obtain news
    where n1: "length news = length (rows ?x1)"
      and n2: "list_all (\<lambda>t. length t = todo) news"
      and run: "sample_loop n gpt pick todo (Suc k) ?x1
               = Inr (Tensor (ncols ?x1 + todo) (map2 (@) (rows ?x1) news))"
    by blast
  let ?news = "map2 (@) ?col news"
  from n1 len have l: "length ?news = length (rows x)" by simp
  from n2 have a: "list_all (\<lambda>t. length t = Suc todo) ?news"
    by (auto simp: list_all_iff in_set_zip)
  have "sample_loop n gpt pick (Suc todo) k x
      = Inr (Tensor (ncols x + Suc todo) (map2 (@) (rows x) ?news))"
    using step run by (simp add: map2_append_assoc)
  with l a show ?case by blast
qed

lemma cut_conditioning:
  assumes "length cs = length xs" and "length xs = length ns"
    and "list_all (\<lambda>r. length r = lc) cs" and "list_all (\<lambda>r. length r = lx) xs"
    and "list_all (\<lambda>r. length r = m) ns"
  shows "map (\<lambda>r. take (lx + m) (drop lc r)) (map2 (@) (map2 (@) cs xs) ns) = map2 (@) xs ns"
  using assms by (induction cs xs ns rule: list_induct3) simp_all

text \<open>
  C3, as stated, in its two branches, for a conditioning of three tokens, two initial
  tokens and \<^verbatim>\<open>steps = 4\<close>. With \<^verbatim>\<open>pkeep = 0.5\<close> and \<^verbatim>\<open>block_size = 5\<close> the second
  iteration fails \<^verbatim>\<open>assert x.size(1) <= block_size\<close>, so the loop does not run four
  iterations and nothing is returned. With \<^verbatim>\<open>pkeep = 0\<close> the one pass returns three
  positions, not \<open>2 + 4\<close>: the noise appended is \<^verbatim>\<open>c[:, 2:-1]\<close>, which is empty, and
  not the \<^verbatim>\<open>steps - 1\<close> tokens of the \<^verbatim>\<open>noise_shape\<close> computed on the line before.
\<close>

theorem sample_positions_counterexample:
  "sample_tokens (example_net\<lparr>transformer_training := False\<rparr>)
      (\<lambda>t. t) (\<lambda>k l. l) (Tensor 2 [[4, 5]]) (Tensor 3 [[1, 2, 3]]) 4
     = Inl AssertionError
   \<and> sample_tokens (example_net\<lparr>pkeep := 0, transformer_training := False\<rparr>)
      (\<lambda>t. t) (\<lambda>k l. l) (Tensor 2 [[4, 5]]) (Tensor 3 [[1, 2, 3]]) 4
     = Inr (Tensor 3 [[3, 4, 5]])"
  by (simp add: sample_tokens_def example_net_def cat1_def col_slice_def slice_index_def Let_def
      sample_step_def last_logits_def numeral_eq_Suc)

text \<open>
  C3, amended to the loop and its guard. With the transformer in evaluation mode and
  returning logits for every position, \<^verbatim>\<open>c\<close> and \<^verbatim>\<open>x\<close> well-formed tensors of the
  same batch size: when \<^verbatim>\<open>pkeep > 0\<close>, \<^verbatim>\<open>steps >= 1\<close>, the sequence \<^verbatim>\<open>[c, x]\<close> is not
  empty and \<^verbatim>\<open>Lc + Lx + steps - 1 <= block_size\<close> (so that the assertion on the block
  size holds in every iteration), the loop runs \<^verbatim>\<open>steps\<close> iterations; iteration \<open>k\<close>
  starts from a sequence of \<open>Lc + Lx + k\<close> positions and appends to each row exactly one
  token, the one chosen from the logits of the row's last position; after the loop each
  row is the row of \<^verbatim>\<open>c\<close>, then the row of \<^verbatim>\<open>x\<close>, then the \<^verbatim>\<open>steps\<close> sampled tokens;
  and the result is that sequence with the conditioning cut off: each row is the row of
  \<^verbatim>\<open>x\<close> followed by its sampled tokens, \<open>Lx + steps\<close> positions. (The branch
  \<^verbatim>\<open>pkeep <= 0\<close> is left out.)
\<close>

theorem sample_positions:
  assumes gpt: "shape_preserving gpt"
    and eval: "\<not> transformer_training n"
    and batch: "length (rows c) = length (rows x)"
    and wfc: "well_formed c" and wfx: "well_formed x"
    and keep: "0 < pkeep n" and steps: "1 \<le> steps"
    and nonempty: "1 \<le> ncols c + ncols x"
    and fits: "int (ncols c + ncols x) + steps - 1 \<le> net_block_size n"
  shows "\<exists>x0 news.
           cat_dim1 [c, x] = Inr x0
         \<and> (\<forall>k < nat steps. \<exists>xk.
                sample_loop n gpt pick k 0 x0 = Inr xk
              \<and> ncols xk = ncols c + ncols x + k
              \<and> sample_loop n gpt pick (Suc k) 0 x0
                  = cat_dim1 [xk, Tensor 1 (map (\<lambda>l. [pick k l]) (map last (rows (gpt xk))))]
              \<and> (\<exists>xk'. sample_loop n gpt pick (Suc k) 0 x0 = Inr xk'
                      \<and> ncols xk' = ncols xk + 1))
         \<and> length news = length (rows x)
         \<and> list_all (\<lambda>t. length t = nat steps) news
         \<and> sample_loop n gpt pick (nat steps) 0 x0
             = Inr (Tensor (ncols c + ncols x + nat steps)
                      (map2 (@) (map2 (@) (rows c) (rows x)) news))
         \<and> sample_tokens n gpt pick x c steps
             = Inr (Tensor (ncols x + nat steps) (map2 (@) (rows x) news))"
proof -
  let ?x0 = "Tensor (ncols c + ncols x) (map2 (@) (rows c) (rows x))"
  from batch have x0: "cat_dim1 [c, x] = Inr ?x0" by (simp add: cat1_def)
  have each: "\<exists>xk. sample_loop n gpt pick k 0 ?x0 = Inr xk
              \<and> ncols xk = ncols c + ncols x + k
              \<and> sample_loop n gpt pick (Suc k) 0 ?x0
                  = cat_dim1 [xk, Tensor 1 (map (\<lambda>l. [pick k l]) (map last (rows (gpt xk))))]
              \<and> (\<exists>xk'. sample_loop n gpt pick (Suc k) 0 ?x0 = Inr xk'
                      \<and> ncols xk' = ncols xk + 1)"
    if k: "k < nat steps" for k
  proof -
    from k fits have f: "int (ncols ?x0) + int k - 1 \<le> net_block_size n" by simp
    from nonempty have ne: "1 \<le> ncols ?x0" by simp
    from sample_loop_appends [OF gpt f ne, of pick 0] obtain nk
      where run: "sample_loop n gpt pick k 0 ?x0
          = Inr (Tensor (ncols ?x0 + k) (map2 (@) (rows ?x0) nk))" by blast
    let ?xk = "Tensor (ncols ?x0 + k) (map2 (@) (rows ?x0) nk)"
    from k fits have "int (ncols ?xk) \<le> net_block_size n" by simp
    moreover from nonempty have "1 \<le> ncols ?xk" by simp
    ultimately have st: "sample_step n gpt pick k ?xk
        = Inr (Tensor (ncols ?xk + 1)
               (map2 (@) (rows ?xk) (map (\<lambda>l. [pick k l]) (map last (rows (gpt ?xk))))))"
      "sample_step n gpt pick k ?xk
        = cat_dim1 [?xk, Tensor 1 (map (\<lambda>l. [pick k l]) (map last (rows (gpt ?xk))))]"
      by (rule sample_step_appends [OF gpt])+
    have next_loop: "sample_loop n gpt pick (Suc k) 0 ?x0 = sample_step n gpt pick k ?xk"
      by (simp only: sample_loop_snoc run bind_err_Inr add_0)
    have c1: "ncols ?xk = ncols c + ncols x + k" by simp
    have c2: "sample_loop n gpt pick (Suc k) 0 ?x0
        = cat_dim1 [?xk, Tensor 1 (map (\<lambda>l. [pick k l]) (map last (rows (gpt ?xk))))]"
      by (simp only: next_loop st(2))
    have c3: "\<exists>xk'. sample_loop n gpt pick (Suc k) 0 ?x0 = Inr xk' \<and> ncols xk' = ncols ?xk + 1"
      by (simp only: next_loop st(1)) simp
    from run c1 c2 c3 show ?thesis by blast
  qed
  from steps fits have f: "int (ncols ?x0) + int (nat steps) - 1 \<le> net_block_size n" by simp
  from nonempty have ne: "1 \<le> ncols ?x0" by simp
  from sample_loop_appends [OF gpt f ne, of pick 0] obtain news
    where n1: "length news = length (rows ?x0)"
      and n2: "list_all (\<lambda>t. length t = nat steps) news"
      and run: "sample_loop n gpt pick (nat steps) 0 ?x0
          = Inr (Tensor (ncols ?x0 + nat steps) (map2 (@) (rows ?x0) news))" by blast
  from n1 batch have l: "length news = length (rows x)" by simp
  let ?xs = "Tensor (ncols c + ncols x + nat steps) (map2 (@) (map2 (@) (rows c) (rows x)) news)"
  have cut: "col_slice ?xs (Some (int (ncols c))) None
      = Tensor (ncols x + nat steps) (map2 (@) (rows x) news)"
    using cut_conditioning [OF batch l [symmetric] wfc [unfolded well_formed_def]
        wfx [unfolded well_formed_def] n2]
    by (simp add: col_slice_def Let_def slice_index_def)
  have "sample_tokens n gpt pick x c steps
      = Inr (Tensor (ncols x + nat steps) (map2 (@) (rows x) news))"
    using keep eval x0 run cut by (simp add: sample_tokens_def)
  with x0 each l n2 run show ?thesis by (intro exI [of _ ?x0] exI [of _ news]) simp
qed

text \<open>
  The theorem on a conditioning \<open>[1, 2]\<close>, initial tokens \<open>[4, 5]\<close> and two steps within
  \<^verbatim>\<open>block_size = 5\<close>, with a transformer that returns its input and the choice
  \<open>last token + k + 1\<close> in iteration \<open>k\<close>: the tokens 6 and 8 are appended, and the
  result is \<open>[4, 5, 6, 8]\<close>.
\<close>

theorem sample_positions_witness:
  "sample_loop (example_net\<lparr>transformer_training := False\<rparr>)
      (\<lambda>t. t) (\<lambda>k l. l + int k + 1) 2 0 (Tensor 4 [[1, 2, 4, 5]])
     = Inr (Tensor 6 [[1, 2, 4, 5, 6, 8]])
   \<and> sample_tokens (example_net\<lparr>transformer_training := False\<rparr>)
      (\<lambda>t. t) (\<lambda>k l. l + int k + 1) (Tensor 2 [[4, 5]]) (Tensor 2 [[1, 2]]) 2
     = Inr (Tensor 4 [[4, 5, 6, 8]])"
proof -
  let ?n = "example_net\<lparr>transformer_training := False\<rparr>"
  have gpt: "shape_preserving (\<lambda>t. t)"
    by (simp add: shape_preserving_def)
  have loop: "sample_loop ?n (\<lambda>t. t) (\<lambda>k l. l + int k + 1) 2 0 (Tensor 4 [[1, 2, 4, 5]])
     = Inr (Tensor 6 [[1, 2, 4, 5, 6, 8]])"
    by (simp add: example_net_def cat1_def sample_step_def last_logits_def numeral_eq_Suc)
  have run: "sample_tokens ?n (\<lambda>t. t) (\<lambda>k l. l + int k + 1) (Tensor 2 [[4, 5]])
      (Tensor 2 [[1, 2]]) 2 = Inr (Tensor 4 [[4, 5, 6, 8]])"
    by (simp add: sample_tokens_def example_net_def cat1_def col_slice_def slice_index_def
        Let_def sample_step_def last_logits_def numeral_eq_Suc)
  have wf: "well_formed (Tensor 2 [[1, 2 :: int]])" "well_formed (Tensor 2 [[4, 5 :: int]])"
    by (simp_all add: well_formed_def)
  have pre: "\<not> transformer_training ?n" "0 < pkeep ?n"
    "length (rows (Tensor 2 [[1, 2 :: int]])) = length (rows (Tensor 2 [[4, 5 :: int]]))"
    "1 \<le> ncols (Tensor 2 [[1, 2 :: int]]) + ncols (Tensor 2 [[4, 5 :: int]])"
    "int (ncols (Tensor 2 [[1, 2 :: int]]) + ncols (Tensor 2 [[4, 5 :: int]])) + 2 - 1
       \<le> net_block_size ?n"
    by (simp_all add: example_net_def)
  have "(1::int) \<le> 2" by simp
  from sample_positions [OF gpt pre(1) pre(3) wf pre(2) this pre(4) pre(5),
      of "\<lambda>k l. l + int k + 1"]
  obtain news where "sample_tokens ?n (\<lambda>t. t) (\<lambda>k l. l + int k + 1) (Tensor 2 [[4, 5]])
      (Tensor 2 [[1, 2]]) 2
    = Inr (Tensor (ncols (Tensor 2 [[4, 5 :: int]]) + nat 2)
             (map2 (@) (rows (Tensor 2 [[4, 5 :: int]])) news))"
    by blast
  with run have "Tensor 4 [[4, 5, 6, 8]]
      = Tensor (ncols (Tensor 2 [[4, 5 :: int]]) + nat 2)
          (map2 (@) (rows (Tensor 2 [[4, 5 :: int]])) news)"
    by simp
  with loop run show ?thesis by simp
qed

end
